theory Spec2Isabelle
  imports Main "HOL-Library.Sublist"
begin

section \<open>Strings of the input field\<close>

text \<open>
  The bond ingestion logic of \<^verbatim>\<open>src/index.tsx\<close> (\<^verbatim>\<open>handleProcessInput\<close> of
  \<^verbatim>\<open>PrizeBondApp\<close>) works on JavaScript strings. A string is modelled as a
  \<^typ>\<open>string\<close>, each \<^typ>\<open>char\<close> standing for one code unit below 256.
  Within that range the regular-expression class \<^verbatim>\<open>\s\<close> (and the characters removed
  by \<^verbatim>\<open>trim\<close>) are tab, line feed, vertical tab, form feed, carriage return, space
  and the no-break space; \<^verbatim>\<open>\d\<close> is the ten ASCII digits.
\<close>

definition isSpace :: "char \<Rightarrow> bool" where
  "isSpace c = (of_char c \<in> set [9, 10, 11, 12, 13, 32, 160 :: nat])"

definition isDigit :: "char \<Rightarrow> bool" where
  "isDigit c = (48 \<le> (of_char c :: nat) \<and> (of_char c :: nat) \<le> 57)"

text \<open>The character class \<^verbatim>\<open>[,\s\n]\<close> of the splitting expression.\<close>

definition isDelim :: "char \<Rightarrow> bool" where
  "isDelim c = (c = CHR '','' \<or> isSpace c \<or> c = CHR 0x0A)"

text \<open>\<^verbatim>\<open>String.prototype.trim\<close>.\<close>

definition trim :: "string \<Rightarrow> string" where
  "trim s = rev (dropWhile isSpace (rev (dropWhile isSpace s)))"

text \<open>
  \<^verbatim>\<open>inputValue.split(/[,\s\n]+/)\<close>: the pieces between the maximal runs of delimiters.
  As in JavaScript, a delimiter run at the very start or end leaves an empty piece there,
  and a string without delimiters is its own single piece.
\<close>

function splitDelims :: "string \<Rightarrow> string list" where
  "splitDelims s =
     (let piece = takeWhile (\<lambda>c. \<not> isDelim c) s;
          rest = dropWhile (\<lambda>c. \<not> isDelim c) s
      in if rest = [] then [piece]
         else piece # splitDelims (dropWhile isDelim rest))"
  by pat_completeness auto
termination
proof (relation "measure length")
  show "wf (measure length)" by simp
next
  fix s piece rest
  assume rest: "rest = dropWhile (\<lambda>c. \<not> isDelim c) s" and ne: "rest \<noteq> []"
  have "length (dropWhile isDelim rest) < length rest"
  proof (cases rest)
    case Nil
    with ne show ?thesis by simp
  next
    case (Cons d r)
    have "isDelim (hd rest)"
      using ne hd_dropWhile [of "\<lambda>c. \<not> isDelim c" s] rest by simp
    with Cons have "dropWhile isDelim rest = dropWhile isDelim r" by simp
    moreover have "length (dropWhile isDelim r) \<le> length r"
      by (rule length_dropWhile_le)
    ultimately show ?thesis using Cons by simp
  qed
  moreover have "length rest \<le> length s"
    unfolding rest by (rule length_dropWhile_le)
  ultimately show "(dropWhile isDelim rest, s) \<in> measure length" by simp
qed

declare splitDelims.simps [simp del]

text \<open>
  \<^verbatim>\<open>inputValue.split(/[,\s\n]+/).map(s => s.trim()).filter(Boolean)\<close>: the empty string
  is the only falsy string.
\<close>

definition segmentsOf :: "string \<Rightarrow> string list" where
  "segmentsOf inputValue = filter (\<lambda>s. s \<noteq> []) (map trim (splitDelims inputValue))"

section \<open>Numbers and their rendering\<close>

text \<open>
  \<^verbatim>\<open>parseInt(str, 10)\<close> reads the leading decimal digits. It is only ever applied to
  the two capture groups \<^verbatim>\<open>(\d{7})\<close>, so the sign, leading white space and the
  \<^verbatim>\<open>NaN\<close> result for a string without digits never arise. The bounds stay below
  ten million, where JavaScript numbers are exact integers, hence \<^typ>\<open>nat\<close>.
\<close>

definition digitVal :: "char \<Rightarrow> nat" where
  "digitVal c = of_char c - 48"

definition parseInt :: "string \<Rightarrow> nat" where
  "parseInt str = foldl (\<lambda>n c. 10 * n + digitVal c) 0 (takeWhile isDigit str)"

text \<open>\<^verbatim>\<open>i.toString()\<close> for a non-negative integer: decimal, no leading zeros.\<close>

fun toString :: "nat \<Rightarrow> string" where
  "toString n =
     (if n < 10 then [char_of (48 + n)]
      else toString (n div 10) @ [char_of (48 + n mod 10)])"

declare toString.simps [simp del]

text \<open>\<^verbatim>\<open>str.padStart(targetLength, padString)\<close> with a one-character pad string.\<close>

definition padStart :: "nat \<Rightarrow> char \<Rightarrow> string \<Rightarrow> string" where
  "padStart targetLength c str = replicate (targetLength - length str) c @ str"

text \<open>\<^verbatim>\<open>i.toString().padStart(7, '0')\<close>.\<close>

definition bondStrOf :: "nat \<Rightarrow> string" where
  "bondStrOf i = padStart 7 (CHR ''0'') (toString i)"

text \<open>\<^verbatim>\<open>parts.join(sep)\<close>.\<close>

fun joinWith :: "string \<Rightarrow> string list \<Rightarrow> string" where
  "joinWith sep [] = []"
| "joinWith sep [p] = p"
| "joinWith sep (p # q # ps) = p @ sep @ joinWith sep (q # ps)"

section \<open>Token patterns\<close>

text \<open>
  \<^verbatim>\<open>segment.match(/^(\d{7})\s*-\s*(\d{7})$/)\<close>, returning the two capture groups.
  Neither the hyphen nor a digit is white space, so each greedy \<^verbatim>\<open>\s*\<close> can only
  succeed on the maximal run of white space.
\<close>

definition rangeMatch :: "string \<Rightarrow> (string \<times> string) option" where
  "rangeMatch segment =
     (let startStr = take 7 segment;
          afterStart = dropWhile isSpace (drop 7 segment)
      in if length startStr = 7 \<and> list_all isDigit startStr then
           (case afterStart of
              [] \<Rightarrow> None
            | c # afterHyphen \<Rightarrow>
                if c = CHR ''-'' then
                  (let endStr = dropWhile isSpace afterHyphen
                   in if length endStr = 7 \<and> list_all isDigit endStr
                      then Some (startStr, endStr) else None)
                else None)
         else None)"

text \<open>\<^verbatim>\<open>/^\d{7}$/.test(segment)\<close>.\<close>

definition singleMatch :: "string \<Rightarrow> bool" where
  "singleMatch segment = (length segment = 7 \<and> list_all isDigit segment)"

section \<open>Application state\<close>

text \<open>
  The state variables of \<^verbatim>\<open>PrizeBondApp\<close> that ingestion reads or writes. A notification
  is kept as its severity and message; its \<^verbatim>\<open>Date.now()\<close> identifier and the timer
  that removes it after four seconds are outside this model.
\<close>

datatype NotificationType = Success | Error | Warning

record app =
  bonds :: "string list"
  inputValue :: string
  notifications :: "(NotificationType \<times> string) list"

definition showNotification :: "NotificationType \<Rightarrow> string \<Rightarrow> app \<Rightarrow> app" where
  "showNotification type message st =
     st\<lparr>notifications := notifications st @ [(type, message)]\<rparr>"

section \<open>Ingestion\<close>

text \<open>
  The local variables of one call of \<^verbatim>\<open>handleProcessInput\<close>. \<^verbatim>\<open>validNewBonds\<close> is a
  JavaScript \<^verbatim>\<open>Set\<close>, which iterates in insertion order: it is the list of its
  elements in the order they were added, and an element is only ever added after the
  \<^verbatim>\<open>has\<close> test failed.
\<close>

record tally =
  validNewBonds :: "string list"
  duplicates :: nat
  rangeFormatErrors :: nat
  rangeSizeErrors :: nat
  singleFormatErrors :: nat

definition emptyTally :: tally where
  "emptyTally = \<lparr>validNewBonds = [], duplicates = 0, rangeFormatErrors = 0,
                  rangeSizeErrors = 0, singleFormatErrors = 0\<rparr>"

definition MAX_RANGE_SIZE :: nat where
  "MAX_RANGE_SIZE = 50000"

text \<open>
  The test that both the range loop and the single-bond branch apply to a candidate:
  \<^verbatim>\<open>if (existingSet.has(bondStr) || validNewBonds.has(bondStr)) duplicates++;
  else validNewBonds.add(bondStr)\<close>, where \<^verbatim>\<open>existingSet = new Set(bonds)\<close>.
\<close>

definition addCandidate :: "string list \<Rightarrow> string \<Rightarrow> tally \<Rightarrow> tally" where
  "addCandidate existing bondStr t =
     (if bondStr \<in> set existing \<or> bondStr \<in> set (validNewBonds t)
      then t\<lparr>duplicates := duplicates t + 1\<rparr>
      else t\<lparr>validNewBonds := validNewBonds t @ [bondStr]\<rparr>)"

text \<open>\<^verbatim>\<open>for (let i = start; i <= end; i++) { ... }\<close>\<close>

function rangeLoop :: "string list \<Rightarrow> nat \<Rightarrow> nat \<Rightarrow> tally \<Rightarrow> tally" where
  "rangeLoop existing i endN t =
     (if i \<le> endN
      then rangeLoop existing (i + 1) endN (addCandidate existing (bondStrOf i) t)
      else t)"
  by pat_completeness auto
termination
  by (relation "measure (\<lambda>(existing, i, endN, t). Suc endN - i)") auto

declare rangeLoop.simps [simp del]

text \<open>The body of \<^verbatim>\<open>segments.forEach(segment => { ... })\<close>.\<close>

definition processSegment :: "string list \<Rightarrow> tally \<Rightarrow> string \<Rightarrow> tally" where
  "processSegment existing t segment =
     (case rangeMatch segment of
        Some (startStr, endStr) \<Rightarrow>
          (let start0 = parseInt startStr;
               end0 = parseInt endStr;
               startN = (if start0 > end0 then end0 else start0);
               endN = (if start0 > end0 then start0 else end0)
           in if endN - startN > MAX_RANGE_SIZE
              then t\<lparr>rangeSizeErrors := rangeSizeErrors t + 1\<rparr>
              else rangeLoop existing startN endN t)
      | None \<Rightarrow>
          if CHR ''-'' \<in> set segment
          then t\<lparr>rangeFormatErrors := rangeFormatErrors t + 1\<rparr>
          else if singleMatch segment
          then addCandidate existing segment t
          else t\<lparr>singleFormatErrors := singleFormatErrors t + 1\<rparr>)"

text \<open>The counters after the \<^verbatim>\<open>forEach\<close> over all segments.\<close>

definition ingest :: "string list \<Rightarrow> string \<Rightarrow> tally" where
  "ingest existing input = foldl (processSegment existing) emptyTally (segmentsOf input)"

definition plural :: "nat \<Rightarrow> string" where
  "plural n = (if n > 1 then ''s'' else [])"

definition hasFormatErrors :: "tally \<Rightarrow> bool" where
  "hasFormatErrors t =
     (rangeSizeErrors t > 0 \<or> rangeFormatErrors t > 0 \<or> singleFormatErrors t > 0)"

text \<open>The message of the success branch.\<close>

definition addedMessage :: "tally \<Rightarrow> string" where
  "addedMessage t =
     ''Added '' @ toString (length (validNewBonds t)) @ '' bond''
       @ plural (length (validNewBonds t)) @ ''.''
       @ (if duplicates t > 0
          then '' '' @ toString (duplicates t) @ '' duplicate'' @ plural (duplicates t)
                 @ '' skipped.''
          else [])"

text \<open>The array \<^verbatim>\<open>parts\<close> of the branch that reports issues, after its four pushes.\<close>

definition issueParts :: "tally \<Rightarrow> string list" where
  "issueParts t =
     (if duplicates t > 0
      then [toString (duplicates t) @ '' duplicate'' @ plural (duplicates t)] else [])
     @ (if rangeSizeErrors t > 0
        then [toString (rangeSizeErrors t) @ '' ranges too large (max ''
                @ toString MAX_RANGE_SIZE @ '')''] else [])
     @ (if rangeFormatErrors t > 0
        then [toString (rangeFormatErrors t) @ '' ranges with invalid digits (must be 7)'']
        else [])
     @ (if singleFormatErrors t > 0
        then [toString (singleFormatErrors t) @ '' invalid number''
                @ plural (singleFormatErrors t) @ '' (must be 7 digits)''] else [])"

definition issueMessage :: "string list \<Rightarrow> string" where
  "issueMessage parts =
     ''Issue'' @ plural (length parts) @ '': '' @ joinWith '', '' parts @ ''.''"

text \<open>
  The handler. It reads \<^verbatim>\<open>bonds\<close> and \<^verbatim>\<open>inputValue\<close> of the current render and
  updates the collection by \<^verbatim>\<open>setBonds(prev => [...Array.from(validNewBonds).reverse(),
  ...prev])\<close>; handlers run to completion one after the other, each on the state the
  previous one left, so \<^verbatim>\<open>prev\<close> is the \<^verbatim>\<open>bonds\<close> the handler read. In the branch
  without accepted identifiers the source returns early, with the input cleared, when
  there are duplicates and no formatting errors; otherwise it builds \<^verbatim>\<open>parts\<close> and
  shows either the issues or, when \<^verbatim>\<open>parts\<close> is empty, the final error.
\<close>

definition handleProcessInput :: "app \<Rightarrow> app" where
  "handleProcessInput st =
     (if trim (inputValue st) = []
      then showNotification Warning ''Please enter bond numbers to add.'' st
      else
        let t = ingest (bonds st) (inputValue st)
        in if length (validNewBonds t) > 0
           then showNotification Success (addedMessage t)
                  (st\<lparr>bonds := rev (validNewBonds t) @ bonds st, inputValue := []\<rparr>)
           else if duplicates t > 0 \<and> \<not> hasFormatErrors t
           then showNotification Warning
                  (''Duplicate bond'' @ plural (duplicates t) @ '' found.'')
                  (st\<lparr>inputValue := []\<rparr>)
           else if length (issueParts t) > 0
           then showNotification Warning (issueMessage (issueParts t)) st
           else showNotification Error ''No valid bonds found.'' st)"

text \<open>A session: the handler run once for each text the user submits, in order.\<close>

definition submit :: "app \<Rightarrow> string \<Rightarrow> app" where
  "submit st input = handleProcessInput (st\<lparr>inputValue := input\<rparr>)"

definition initialApp :: app where
  "initialApp = \<lparr>bonds = [], inputValue = [], notifications = []\<rparr>"

section \<open>The earlier variants of the handler\<close>

text \<open>
  The two other source files of the repository hold earlier versions of
  \<^verbatim>\<open>PrizeBondApp\<close>. Their \<^verbatim>\<open>handleProcessInput\<close> has the same shape, but the body of
  its \<^verbatim>\<open>segments.forEach\<close> differs from the one above: a range whose first bound is
  above its second is rejected, the cap is 5000 and reported at once, and there is one
  counter for every malformed token. The body is the same in both files. Its local
  variables are \<^verbatim>\<open>validNewBonds\<close>, \<^verbatim>\<open>duplicates\<close>, \<^verbatim>\<open>invalidFormatCount\<close> and
  \<^verbatim>\<open>rangeErrors\<close>; \<^verbatim>\<open>shown_v1\<close> collects the notifications it shows on the way.
\<close>

record tally_v1 =
  validNewBonds_v1 :: "string list"
  duplicates_v1 :: nat
  invalidFormatCount :: nat
  rangeErrors :: nat
  shown_v1 :: "(NotificationType \<times> string) list"

definition addCandidate_v1 :: "string list \<Rightarrow> string \<Rightarrow> tally_v1 \<Rightarrow> tally_v1" where
  "addCandidate_v1 existing bondStr t =
     (if bondStr \<in> set existing \<or> bondStr \<in> set (validNewBonds_v1 t)
      then t\<lparr>duplicates_v1 := duplicates_v1 t + 1\<rparr>
      else t\<lparr>validNewBonds_v1 := validNewBonds_v1 t @ [bondStr]\<rparr>)"

function rangeLoop_v1 :: "string list \<Rightarrow> nat \<Rightarrow> nat \<Rightarrow> tally_v1 \<Rightarrow> tally_v1" where
  "rangeLoop_v1 existing i endN t =
     (if i \<le> endN
      then rangeLoop_v1 existing (i + 1) endN (addCandidate_v1 existing (bondStrOf i) t)
      else t)"
  by pat_completeness auto
termination
  by (relation "measure (\<lambda>(existing, i, endN, t). Suc endN - i)") auto

declare rangeLoop_v1.simps [simp del]

definition processSegment_v1 :: "string list \<Rightarrow> tally_v1 \<Rightarrow> string \<Rightarrow> tally_v1" where
  "processSegment_v1 existing t segment =
     (case rangeMatch segment of
        Some (startStr, endStr) \<Rightarrow>
          (let startN = parseInt startStr;
               endN = parseInt endStr
           in if startN > endN
              then t\<lparr>rangeErrors := rangeErrors t + 1\<rparr>
              else if endN - startN > 5000
              then t\<lparr>rangeErrors := rangeErrors t + 1,
                     shown_v1 := shown_v1 t
                       @ [(Warning, ''Range '' @ segment @ '' too large (max 5000). Skipped.'')]\<rparr>
              else rangeLoop_v1 existing startN endN t)
      | None \<Rightarrow>
          if singleMatch segment
          then addCandidate_v1 existing segment t
          else t\<lparr>invalidFormatCount := invalidFormatCount t + 1\<rparr>)"

section \<open>The invariant of one ingestion call\<close>

text \<open>
  What the \<^verbatim>\<open>has\<close> tests maintain while the segments are processed: the accepted
  identifiers are pairwise different and none of them is in the existing collection.
\<close>

definition fresh :: "string list \<Rightarrow> tally \<Rightarrow> bool" where
  "fresh existing t =
     (distinct (validNewBonds t) \<and> set (validNewBonds t) \<inter> set existing = {})"

section \<open>Rendering and parsing of identifiers\<close>

lemma isDigit_char_of: "(d::nat) < 10 \<Longrightarrow> isDigit (char_of (48 + d))"
  by (simp add: isDigit_def of_char_of)

lemma digitVal_char_of: "(d::nat) < 10 \<Longrightarrow> digitVal (char_of (48 + d)) = d"
  by (simp add: digitVal_def of_char_of)

lemma digitVal_le: "isDigit c \<Longrightarrow> digitVal c \<le> 9"
  unfolding isDigit_def digitVal_def by arith

lemma toString_digits: "list_all isDigit (toString n)"
proof (induction n rule: toString.induct)
  case (1 n)
  show ?case
  proof (cases "n < 10")
    case True
    then show ?thesis by (subst toString.simps) (simp add: isDigit_char_of)
  next
    case False
    with 1 show ?thesis by (subst toString.simps) (simp add: isDigit_char_of)
  qed
qed

lemma toString_value: "foldl (\<lambda>n c. 10 * n + digitVal c) 0 (toString n) = n"
proof (induction n rule: toString.induct)
  case (1 n)
  show ?case
  proof (cases "n < 10")
    case True
    then show ?thesis by (subst toString.simps) (simp add: digitVal_char_of)
  next
    case False
    with 1 show ?thesis by (subst toString.simps) (simp add: digitVal_char_of)
  qed
qed

lemma toString_length: "0 < k \<Longrightarrow> n < 10 ^ k \<Longrightarrow> length (toString n) \<le> k"
proof (induction n arbitrary: k rule: toString.induct)
  case (1 n)
  show ?case
  proof (cases "n < 10")
    case True
    with 1(2) show ?thesis by (subst toString.simps) simp
  next
    case False
    obtain j where k: "k = Suc j" using 1(2) by (cases k) auto
    from False 1(3) k have j: "0 < j" by (cases j) auto
    from 1(3) k have "n div 10 < 10 ^ j" by (simp add: less_mult_imp_div_less mult.commute)
    with 1(1) [OF False j] have "length (toString (n div 10)) \<le> j" by simp
    with False k show ?thesis by (subst toString.simps) simp
  qed
qed

lemma zeros_value: "foldl (\<lambda>n c. 10 * n + digitVal c) 0 (replicate k (CHR ''0'')) = 0"
  by (induction k) (simp_all add: digitVal_def)

lemma isDigit_zero: "isDigit (CHR ''0'')"
  by (simp add: isDigit_def)

lemma bondStrOf_digits: "list_all isDigit (bondStrOf n)"
  using toString_digits [of n]
  by (auto simp: bondStrOf_def padStart_def isDigit_zero list_all_iff)

lemma takeWhile_all: "list_all P xs \<Longrightarrow> takeWhile P xs = xs"
  by (induction xs) auto

lemma parseInt_bondStrOf: "parseInt (bondStrOf n) = n"
proof -
  have "takeWhile isDigit (bondStrOf n) = bondStrOf n"
    by (rule takeWhile_all) (rule bondStrOf_digits)
  then have "parseInt (bondStrOf n) = foldl (\<lambda>n c. 10 * n + digitVal c) 0 (bondStrOf n)"
    by (simp only: parseInt_def)
  then show ?thesis
    by (simp add: bondStrOf_def padStart_def zeros_value toString_value)
qed

lemma bondStrOf_length: "n < 10 ^ 7 \<Longrightarrow> length (bondStrOf n) = 7"
  using toString_length [of 7 n] by (simp add: bondStrOf_def padStart_def)

lemma digits_value_bound:
  "list_all isDigit s \<Longrightarrow> foldl (\<lambda>n c. 10 * n + digitVal c) 0 s < 10 ^ length s"
proof (induction s rule: rev_induct)
  case Nil
  then show ?case by simp
next
  case (snoc c s)
  then have "digitVal c \<le> 9" and "foldl (\<lambda>n c. 10 * n + digitVal c) 0 s < 10 ^ length s"
    by (simp_all add: digitVal_le)
  then show ?case by simp
qed

lemma parseInt_bound: "list_all isDigit s \<Longrightarrow> parseInt s < 10 ^ length s"
  by (simp add: parseInt_def takeWhile_all digits_value_bound)

lemma inj_bondStrOf: "inj bondStrOf"
  by (rule inj_on_inverseI [where g = parseInt]) (rule parseInt_bondStrOf)

section \<open>Uniqueness of the collection\<close>

lemma rangeLoop_foldl:
  "rangeLoop existing i endN t =
     foldl (\<lambda>t j. addCandidate existing (bondStrOf j) t) t [i..<Suc endN]"
proof (induction existing i endN t rule: rangeLoop.induct)
  case (1 existing i endN t)
  show ?case
  proof (cases "i \<le> endN")
    case True
    then have "[i..<Suc endN] = i # [i + 1..<Suc endN]"
      by (simp add: upt_conv_Cons)
    with True 1 show ?thesis by (subst rangeLoop.simps) simp
  next
    case False
    then show ?thesis by (subst rangeLoop.simps) simp
  qed
qed



lemma fresh_emptyTally: "fresh existing emptyTally"
  by (simp add: fresh_def emptyTally_def)

lemma fresh_addCandidate: "fresh existing t \<Longrightarrow> fresh existing (addCandidate existing b t)"
  by (auto simp: fresh_def addCandidate_def)

lemma fresh_candidates:
  "fresh existing t \<Longrightarrow> fresh existing (foldl (\<lambda>t c. addCandidate existing (f c) t) t cs)"
  by (induction cs arbitrary: t) (simp_all add: fresh_addCandidate)

lemma fresh_rangeLoop:
  "fresh existing t \<Longrightarrow> fresh existing (rangeLoop existing i endN t)"
  unfolding rangeLoop_foldl by (rule fresh_candidates)

lemma fresh_counters:
  "fresh existing (t\<lparr>rangeSizeErrors := a\<rparr>) = fresh existing t"
  "fresh existing (t\<lparr>rangeFormatErrors := b\<rparr>) = fresh existing t"
  "fresh existing (t\<lparr>singleFormatErrors := c\<rparr>) = fresh existing t"
  "fresh existing (t\<lparr>duplicates := d\<rparr>) = fresh existing t"
  by (simp_all add: fresh_def)

lemma fresh_processSegment:
  "fresh existing t \<Longrightarrow> fresh existing (processSegment existing t segment)"
  by (simp add: processSegment_def Let_def fresh_rangeLoop fresh_addCandidate fresh_counters
      split: option.splits prod.splits)

lemma fresh_segments:
  "fresh existing t \<Longrightarrow> fresh existing (foldl (processSegment existing) t segs)"
  by (induction segs arbitrary: t) (simp_all add: fresh_processSegment)

lemma fresh_ingest: "fresh existing (ingest existing input)"
  by (simp add: ingest_def fresh_segments fresh_emptyTally)

lemma bonds_handleProcessInput:
  "bonds (handleProcessInput st) =
     (if trim (inputValue st) = [] then bonds st
      else rev (validNewBonds (ingest (bonds st) (inputValue st))) @ bonds st)"
  by (simp add: handleProcessInput_def showNotification_def Let_def)

lemma distinct_handleProcessInput:
  "distinct (bonds st) \<Longrightarrow> distinct (bonds (handleProcessInput st))"
  using fresh_ingest [of "bonds st" "inputValue st"]
  by (auto simp: bonds_handleProcessInput fresh_def)

lemma distinct_submit: "distinct (bonds st) \<Longrightarrow> distinct (bonds (submit st input))"
  by (simp add: submit_def distinct_handleProcessInput)

lemma distinct_session:
  "distinct (bonds st) \<Longrightarrow> distinct (bonds (foldl submit st inputs))"
  by (induction inputs arbitrary: st) (simp_all add: distinct_submit)

lemma addCandidate_duplicate:
  "bondStr \<in> set existing \<or> bondStr \<in> set (validNewBonds t) \<Longrightarrow>
   addCandidate existing bondStr t = t\<lparr>duplicates := duplicates t + 1\<rparr>"
  by (simp add: addCandidate_def)

subsection \<open>Evaluation on concrete texts\<close>

lemma char_of_digit:
  "char_of (48::nat) = CHR ''0''" "char_of (49::nat) = CHR ''1''"
  "char_of (50::nat) = CHR ''2''" "char_of (51::nat) = CHR ''3''"
  "char_of (52::nat) = CHR ''4''" "char_of (53::nat) = CHR ''5''"
  "char_of (54::nat) = CHR ''6''" "char_of (55::nat) = CHR ''7''"
  "char_of (56::nat) = CHR ''8''" "char_of (57::nat) = CHR ''9''"
  using char_of_char [of "CHR ''0''", where ?'a = nat]
    char_of_char [of "CHR ''1''", where ?'a = nat]
    char_of_char [of "CHR ''2''", where ?'a = nat]
    char_of_char [of "CHR ''3''", where ?'a = nat]
    char_of_char [of "CHR ''4''", where ?'a = nat]
    char_of_char [of "CHR ''5''", where ?'a = nat]
    char_of_char [of "CHR ''6''", where ?'a = nat]
    char_of_char [of "CHR ''7''", where ?'a = nat]
    char_of_char [of "CHR ''8''", where ?'a = nat]
    char_of_char [of "CHR ''9''", where ?'a = nat]
  by simp_all

lemma replicate_num:
  "replicate (numeral k) x = x # replicate (pred_numeral k) x"
  "replicate 1 x = [x]"
  by (simp_all add: numeral_eq_Suc)

lemmas bondStr_eval = bondStrOf_def padStart_def toString.simps char_of_digit replicate_num

lemmas token_eval = segmentsOf_def splitDelims.simps trim_def isDelim_def isSpace_def
  rangeMatch_def singleMatch_def isDigit_def parseInt_def digitVal_def

lemmas ingest_eval = ingest_def processSegment_def rangeLoop.simps addCandidate_def
  emptyTally_def MAX_RANGE_SIZE_def

lemmas handler_eval = handleProcessInput_def showNotification_def addedMessage_def
  plural_def hasFormatErrors_def issueParts_def issueMessage_def

subsection \<open>Blank input has no segments\<close>

lemma trim_Nil_spaces:
  assumes "trim s = []"
  shows "\<forall>c\<in>set s. isSpace c"
proof -
  from assms have all: "\<forall>c\<in>set (dropWhile isSpace s). isSpace c"
    by (simp add: trim_def dropWhile_eq_Nil_conv)
  have "dropWhile isSpace s = []"
  proof (rule ccontr)
    assume ne: "dropWhile isSpace s \<noteq> []"
    then have "\<not> isSpace (hd (dropWhile isSpace s))" by (rule hd_dropWhile)
    moreover from ne have "hd (dropWhile isSpace s) \<in> set (dropWhile isSpace s)" by simp
    ultimately show False using all by blast
  qed
  then show ?thesis by (simp add: dropWhile_eq_Nil_conv)
qed

lemma splitDelims_delims:
  assumes "\<forall>c\<in>set s. isDelim c"
  shows "splitDelims s = (if s = [] then [[]] else [[], []])"
proof (cases s)
  case Nil
  then show ?thesis by (simp add: splitDelims.simps)
next
  case (Cons c cs)
  with assms have tw: "takeWhile (\<lambda>c. \<not> isDelim c) s = []"
    and dw: "dropWhile (\<lambda>c. \<not> isDelim c) s = s" by simp_all
  from assms have "dropWhile isDelim s = []" by (simp add: dropWhile_eq_Nil_conv)
  with tw dw Cons show ?thesis
    by (subst splitDelims.simps) (simp add: splitDelims.simps [of "[]"])
qed

lemma segmentsOf_blank: "trim s = [] \<Longrightarrow> segmentsOf s = []"
proof -
  assume "trim s = []"
  then have "\<forall>c\<in>set s. isDelim c" using trim_Nil_spaces [of s] by (simp add: isDelim_def)
  then have "splitDelims s = (if s = [] then [[]] else [[], []])" by (rule splitDelims_delims)
  then show ?thesis by (simp add: segmentsOf_def trim_def)
qed

lemma ingest_blank: "trim input = [] \<Longrightarrow> ingest existing input = emptyTally"
  by (simp add: ingest_def segmentsOf_blank)

subsection \<open>What a matching range token consists of\<close>

lemma rangeMatch_SomeD:
  assumes "rangeMatch segment = Some (startStr, endStr)"
  shows "length startStr = 7" "list_all isDigit startStr"
    "length endStr = 7" "list_all isDigit endStr"
  using assms
  by (auto simp: rangeMatch_def Let_def split: if_splits list.splits)

lemma rangeMatch_bounds:
  assumes "rangeMatch segment = Some (startStr, endStr)"
  shows "parseInt startStr < 10 ^ 7" "parseInt endStr < 10 ^ 7"
  using rangeMatch_SomeD [OF assms] parseInt_bound [of startStr] parseInt_bound [of endStr]
  by simp_all

lemma isSpace_not_digit: "isDigit c \<Longrightarrow> \<not> isSpace c"
  by (auto simp: isDigit_def isSpace_def)

lemma rangeMatch_hyphenated:
  assumes "length a = 7" "list_all isDigit a" "length b = 7" "list_all isDigit b"
  shows "rangeMatch (a @ ''-'' @ b) = Some (a, b)"
proof -
  from assms(3) obtain c cs where b: "b = c # cs" by (cases b) auto
  with assms(4) have "\<not> isSpace c" by (simp add: isSpace_not_digit)
  with b have "dropWhile isSpace b = b" by simp
  moreover have "\<not> isSpace CHR ''-''" by (simp add: isSpace_def)
  ultimately show ?thesis using assms by (simp add: rangeMatch_def)
qed

lemma singleMatch_not_range: "singleMatch s \<Longrightarrow> rangeMatch s = None"
  by (simp add: singleMatch_def rangeMatch_def)

lemma singleMatch_no_hyphen: "singleMatch s \<Longrightarrow> CHR ''-'' \<notin> set s"
proof
  assume "singleMatch s" and "CHR ''-'' \<in> set s"
  then have "isDigit CHR ''-''" by (auto simp: singleMatch_def list_all_iff)
  then show False by (simp add: isDigit_def)
qed

subsection \<open>The identifiers a range contributes\<close>

lemma candidates_accepted:
  "distinct cs \<Longrightarrow>
   validNewBonds (foldl (\<lambda>t c. addCandidate existing c t) t cs)
     = validNewBonds t @ filter (\<lambda>c. c \<notin> set existing \<and> c \<notin> set (validNewBonds t)) cs"
proof (induction cs arbitrary: t)
  case Nil
  then show ?case by simp
next
  case (Cons c cs)
  then have c: "c \<notin> set cs" and d: "distinct cs" by simp_all
  have "filter (\<lambda>x. x \<notin> set existing \<and> x \<notin> set (validNewBonds (addCandidate existing c t))) cs
        = filter (\<lambda>x. x \<notin> set existing \<and> x \<notin> set (validNewBonds t)) cs"
    using c by (intro filter_cong) (auto simp: addCandidate_def)
  with Cons.IH [OF d, of "addCandidate existing c t"] show ?case
    by (simp add: addCandidate_def)
qed

lemma rangeLoop_accepted:
  "validNewBonds (rangeLoop existing lo hi t)
     = validNewBonds t
       @ filter (\<lambda>c. c \<notin> set existing \<and> c \<notin> set (validNewBonds t))
           (map bondStrOf [lo..<Suc hi])"
proof -
  have "distinct (map bondStrOf [lo..<Suc hi])"
    by (simp add: distinct_map inj_on_subset [OF inj_bondStrOf])
  from candidates_accepted [OF this, of existing t] show ?thesis
    by (simp add: rangeLoop_foldl foldl_map)
qed

lemma rangeLoop_counters:
  "rangeSizeErrors (rangeLoop existing lo hi t) = rangeSizeErrors t"
  "rangeFormatErrors (rangeLoop existing lo hi t) = rangeFormatErrors t"
  "singleFormatErrors (rangeLoop existing lo hi t) = singleFormatErrors t"
proof -
  have "rangeSizeErrors (foldl (\<lambda>t j. addCandidate existing (bondStrOf j) t) t js) = rangeSizeErrors t
      \<and> rangeFormatErrors (foldl (\<lambda>t j. addCandidate existing (bondStrOf j) t) t js) = rangeFormatErrors t
      \<and> singleFormatErrors (foldl (\<lambda>t j. addCandidate existing (bondStrOf j) t) t js) = singleFormatErrors t"
    for js
    by (induction js arbitrary: t) (simp_all add: addCandidate_def)
  then show "rangeSizeErrors (rangeLoop existing lo hi t) = rangeSizeErrors t"
    "rangeFormatErrors (rangeLoop existing lo hi t) = rangeFormatErrors t"
    "singleFormatErrors (rangeLoop existing lo hi t) = singleFormatErrors t"
    by (simp_all add: rangeLoop_foldl)
qed

subsection \<open>Single range tokens\<close>

lemma bondStrOf_shape: "n < 10 ^ 7 \<Longrightarrow> length (bondStrOf n) = 7 \<and> list_all isDigit (bondStrOf n)"
  by (simp add: bondStrOf_length bondStrOf_digits)

lemma processSegment_range:
  assumes "rangeMatch segment = Some (startStr, endStr)"
    and "lo = min (parseInt startStr) (parseInt endStr)"
    and "hi = max (parseInt startStr) (parseInt endStr)"
    and "hi - lo \<le> MAX_RANGE_SIZE"
  shows "processSegment existing t segment = rangeLoop existing lo hi t"
  using assms by (auto simp: processSegment_def Let_def min_def max_def)

text \<open>Blank input accepts nothing.\<close>

lemma accepted_blank:
  "trim (inputValue st) = [] \<Longrightarrow> validNewBonds (ingest (bonds st) (inputValue st)) = []"
  by (simp add: ingest_blank emptyTally_def)

subsection \<open>The issue message\<close>

lemma issueParts_members:
  "rangeSizeErrors t > 0 \<Longrightarrow>
     toString (rangeSizeErrors t) @ '' ranges too large (max 50000)'' \<in> set (issueParts t)"
  "rangeFormatErrors t > 0 \<Longrightarrow>
     toString (rangeFormatErrors t) @ '' ranges with invalid digits (must be 7)''
       \<in> set (issueParts t)"
  "singleFormatErrors t > 0 \<Longrightarrow>
     toString (singleFormatErrors t) @ '' invalid number'' @ plural (singleFormatErrors t)
       @ '' (must be 7 digits)'' \<in> set (issueParts t)"
  "duplicates t > 0 \<Longrightarrow>
     toString (duplicates t) @ '' duplicate'' @ plural (duplicates t) \<in> set (issueParts t)"
proof -
  have cap: "toString MAX_RANGE_SIZE = ''50000''"
    by (simp add: MAX_RANGE_SIZE_def toString.simps char_of_digit)
  show "rangeSizeErrors t > 0 \<Longrightarrow>
     toString (rangeSizeErrors t) @ '' ranges too large (max 50000)'' \<in> set (issueParts t)"
    by (simp add: issueParts_def cap)
qed (simp_all add: issueParts_def)

lemma issueParts_nonempty: "hasFormatErrors t \<Longrightarrow> issueParts t \<noteq> []"
  by (auto simp: hasFormatErrors_def issueParts_def)

lemma issueParts_empty: "\<not> hasFormatErrors t \<Longrightarrow> duplicates t = 0 \<Longrightarrow> issueParts t = []"
  by (simp add: hasFormatErrors_def issueParts_def)

lemma sublist_joinWith: "p \<in> set ps \<Longrightarrow> sublist p (joinWith sep ps)"
proof (induction sep ps rule: joinWith.induct)
  case (1 sep)
  then show ?case by simp
next
  case (2 sep q)
  then show ?case by simp
next
  case (3 sep q r ps)
  show ?case
  proof (cases "p = q")
    case True
    have "joinWith sep (q # r # ps) = [] @ q @ (sep @ joinWith sep (r # ps))" by simp
    with True show ?thesis unfolding sublist_def by blast
  next
    case False
    with 3 have "sublist p (joinWith sep (r # ps))" by simp
    then obtain a b where "joinWith sep (r # ps) = a @ p @ b"
      unfolding sublist_def by blast
    then have "joinWith sep (q # r # ps) = (q @ sep @ a) @ p @ b" by simp
    then show ?thesis unfolding sublist_def by blast
  qed
qed

lemma sublist_issueMessage: "p \<in> set parts \<Longrightarrow> sublist p (issueMessage parts)"
proof -
  assume "p \<in> set parts"
  then have "sublist p (joinWith '', '' parts)" by (rule sublist_joinWith)
  then obtain a b where "joinWith '', '' parts = a @ p @ b"
    unfolding sublist_def by blast
  then have "issueMessage parts = (''Issue'' @ plural (length parts) @ '': '' @ a) @ p @ (b @ ''.'')"
    by (simp add: issueMessage_def)
  then show ?thesis unfolding sublist_def by blast
qed

lemma processSegment_oversized:
  "rangeMatch segment = Some (startStr, endStr) \<Longrightarrow>
   MAX_RANGE_SIZE
     < max (parseInt startStr) (parseInt endStr) - min (parseInt startStr) (parseInt endStr) \<Longrightarrow>
   processSegment existing t segment = t\<lparr>rangeSizeErrors := rangeSizeErrors t + 1\<rparr>"
  by (auto simp: processSegment_def Let_def max_def min_def split: if_splits)

lemma accepted_of_range_ascending:
  assumes "rangeMatch segment = Some (startStr, endStr)"
  shows "sorted_wrt (\<lambda>x y. parseInt x < parseInt y)
           (validNewBonds (processSegment existing emptyTally segment))"
proof -
  define lo where "lo = min (parseInt startStr) (parseInt endStr)"
  define hi where "hi = max (parseInt startStr) (parseInt endStr)"
  show ?thesis
  proof (cases "hi - lo \<le> MAX_RANGE_SIZE")
    case True
    have "sorted_wrt (<) [lo..<Suc hi]" by (rule sorted_wrt_upt)
    then have "sorted_wrt (\<lambda>x y. parseInt x < parseInt y) (map bondStrOf [lo..<Suc hi])"
      by (simp only: sorted_wrt_map parseInt_bondStrOf)
    then have "sorted_wrt (\<lambda>x y. parseInt x < parseInt y)
        (filter (\<lambda>c. c \<notin> set existing) (map bondStrOf [lo..<Suc hi]))"
      by (rule sorted_wrt_filter)
    moreover have "processSegment existing emptyTally segment
        = rangeLoop existing lo hi emptyTally"
      using assms lo_def hi_def True by (rule processSegment_range)
    ultimately show ?thesis by (simp add: rangeLoop_accepted emptyTally_def)
  next
    case False
    then have "MAX_RANGE_SIZE < hi - lo" by simp
    with assms have "processSegment existing emptyTally segment
        = emptyTally\<lparr>rangeSizeErrors := rangeSizeErrors emptyTally + 1\<rparr>"
      unfolding lo_def hi_def by (rule processSegment_oversized)
    then show ?thesis by (simp add: emptyTally_def)
  qed
qed

subsection \<open>Counting duplicates and classifying tokens\<close>

lemma candidates_duplicates:
  "distinct cs \<Longrightarrow>
   duplicates (foldl (\<lambda>t c. addCandidate existing c t) t cs)
     = duplicates t
       + length (filter (\<lambda>c. c \<in> set existing \<or> c \<in> set (validNewBonds t)) cs)"
proof (induction cs arbitrary: t)
  case Nil
  then show ?case by simp
next
  case (Cons c cs)
  then have c: "c \<notin> set cs" and d: "distinct cs" by simp_all
  have "filter (\<lambda>x. x \<in> set existing \<or> x \<in> set (validNewBonds (addCandidate existing c t))) cs
        = filter (\<lambda>x. x \<in> set existing \<or> x \<in> set (validNewBonds t)) cs"
    using c by (intro filter_cong) (auto simp: addCandidate_def)
  with Cons.IH [OF d, of "addCandidate existing c t"] show ?case
    by (simp add: addCandidate_def)
qed

lemma rangeLoop_duplicates:
  "duplicates (rangeLoop existing lo hi t)
     = duplicates t
       + length (filter (\<lambda>c. c \<in> set existing \<or> c \<in> set (validNewBonds t))
           (map bondStrOf [lo..<Suc hi]))"
proof -
  have "distinct (map bondStrOf [lo..<Suc hi])"
    by (simp add: distinct_map inj_on_subset [OF inj_bondStrOf])
  from candidates_duplicates [OF this, of existing t] show ?thesis
    by (simp add: rangeLoop_foldl foldl_map)
qed

lemma processSegment_single:
  "singleMatch segment \<Longrightarrow>
   processSegment existing t segment = addCandidate existing segment t"
  using singleMatch_not_range [of segment] singleMatch_no_hyphen [of segment]
  by (simp add: processSegment_def)

lemma rangeMatch_hyphen:
  assumes "rangeMatch segment = Some (startStr, endStr)"
  shows "CHR ''-'' \<in> set segment"
proof -
  from assms obtain rest where "dropWhile isSpace (drop 7 segment) = CHR ''-'' # rest"
    by (auto simp: rangeMatch_def Let_def split: if_splits list.splits)
  then have "CHR ''-'' \<in> set (dropWhile isSpace (drop 7 segment))" by simp
  then have "CHR ''-'' \<in> set (drop 7 segment)" by (rule set_dropWhileD)
  then show ?thesis by (rule in_set_dropD)
qed

lemma processSegment_matched:
  "rangeMatch segment = Some (startStr, endStr) \<Longrightarrow>
   processSegment existing t segment
     = (if MAX_RANGE_SIZE
            < max (parseInt startStr) (parseInt endStr) - min (parseInt startStr) (parseInt endStr)
        then t\<lparr>rangeSizeErrors := rangeSizeErrors t + 1\<rparr>
        else rangeLoop existing (min (parseInt startStr) (parseInt endStr))
               (max (parseInt startStr) (parseInt endStr)) t)"
  by (auto simp: processSegment_def Let_def min_def max_def)

section \<open>How the earlier variants differ\<close>

text \<open>
  In the earlier variants an inverted range only raises \<^verbatim>\<open>rangeErrors\<close>, and a token
  that matches neither pattern raises \<^verbatim>\<open>invalidFormatCount\<close> whether or not it holds a
  hyphen. The claims below are about the handler of \<^verbatim>\<open>index.tsx\<close>.
\<close>

lemma processSegment_v1_inverted:
  "rangeMatch segment = Some (startStr, endStr) \<Longrightarrow> parseInt startStr > parseInt endStr \<Longrightarrow>
   processSegment_v1 existing t segment = t\<lparr>rangeErrors := rangeErrors t + 1\<rparr>"
  by (simp add: processSegment_v1_def)

lemma processSegment_v1_malformed:
  "rangeMatch segment = None \<Longrightarrow> \<not> singleMatch segment \<Longrightarrow>
   processSegment_v1 existing t segment = t\<lparr>invalidFormatCount := invalidFormatCount t + 1\<rparr>"
  by (simp add: processSegment_v1_def)

lemma processSegment_v1_examples:
  "processSegment_v1 existing t ''0000008-0000005'' = t\<lparr>rangeErrors := rangeErrors t + 1\<rparr>"
  "processSegment_v1 existing t ''12-3456789''
     = t\<lparr>invalidFormatCount := invalidFormatCount t + 1\<rparr>"
  by (simp_all add: processSegment_v1_def token_eval)

section \<open>The claims\<close>

text \<open>
  Claim C1. Whatever texts are submitted one after the other, starting from the empty
  collection, the collection never holds an identifier twice. Within one call the
  accepted identifiers are pairwise different and none of them is in the existing
  collection. A single token that is already in the collection or was accepted earlier
  in the call only raises the duplicate counter by one, and any other valid single token
  is accepted. A range token within the cap accepts, in ascending order, exactly those
  of its identifiers that are neither in the collection nor accepted earlier, and raises
  the duplicate counter by the number of the others. The text
  \<^verbatim>\<open>0000005-0000008,0000005,0000007-0000009\<close> submitted to the collection holding
  \<^verbatim>\<open>0000006\<close> accepts \<^verbatim>\<open>0000005\<close>, \<^verbatim>\<open>0000007\<close>, \<^verbatim>\<open>0000008\<close>,
  \<^verbatim>\<open>0000009\<close> and counts four duplicates.
\<close>

theorem ingestion_sequence_distinct:
  "distinct (bonds (foldl submit initialApp inputs))
   \<and> distinct (validNewBonds (ingest existing input))
   \<and> set (validNewBonds (ingest existing input)) \<inter> set existing = {}
   \<and> (singleMatch segment \<longrightarrow>
        processSegment existing t segment
          = (if segment \<in> set existing \<or> segment \<in> set (validNewBonds t)
             then t\<lparr>duplicates := duplicates t + 1\<rparr>
             else t\<lparr>validNewBonds := validNewBonds t @ [segment]\<rparr>))
   \<and> (rangeMatch segment = Some (startStr, endStr)
        \<and> max (parseInt startStr) (parseInt endStr)
              - min (parseInt startStr) (parseInt endStr) \<le> MAX_RANGE_SIZE \<longrightarrow>
        validNewBonds (processSegment existing t segment)
          = validNewBonds t
            @ filter (\<lambda>c. c \<notin> set existing \<and> c \<notin> set (validNewBonds t))
                (map bondStrOf [min (parseInt startStr) (parseInt endStr)
                                  ..<Suc (max (parseInt startStr) (parseInt endStr))])
        \<and> duplicates (processSegment existing t segment)
          = duplicates t
            + length (filter (\<lambda>c. c \<in> set existing \<or> c \<in> set (validNewBonds t))
                (map bondStrOf [min (parseInt startStr) (parseInt endStr)
                                  ..<Suc (max (parseInt startStr) (parseInt endStr))])))
   \<and> (bondStr \<in> set existing \<or> bondStr \<in> set (validNewBonds t) \<longrightarrow>
        addCandidate existing bondStr t = t\<lparr>duplicates := duplicates t + 1\<rparr>)
   \<and> ingest [''0000006''] ''0000005-0000008,0000005,0000007-0000009''
       = \<lparr>validNewBonds = [''0000005'', ''0000007'', ''0000008'', ''0000009''],
          duplicates = 4, rangeFormatErrors = 0, rangeSizeErrors = 0,
          singleFormatErrors = 0\<rparr>"
proof -
  have session: "distinct (bonds (foldl submit initialApp inputs))"
    by (simp add: distinct_session initialApp_def)
  have call: "distinct (validNewBonds (ingest existing input))
      \<and> set (validNewBonds (ingest existing input)) \<inter> set existing = {}"
    using fresh_ingest [of existing input] by (simp add: fresh_def)
  have single: "processSegment existing t segment
          = (if segment \<in> set existing \<or> segment \<in> set (validNewBonds t)
             then t\<lparr>duplicates := duplicates t + 1\<rparr>
             else t\<lparr>validNewBonds := validNewBonds t @ [segment]\<rparr>)"
    if "singleMatch segment"
    using processSegment_single [OF that, of existing t] by (simp add: addCandidate_def)
  have range: "validNewBonds (processSegment existing t segment)
          = validNewBonds t
            @ filter (\<lambda>c. c \<notin> set existing \<and> c \<notin> set (validNewBonds t))
                (map bondStrOf [min (parseInt startStr) (parseInt endStr)
                                  ..<Suc (max (parseInt startStr) (parseInt endStr))])
        \<and> duplicates (processSegment existing t segment)
          = duplicates t
            + length (filter (\<lambda>c. c \<in> set existing \<or> c \<in> set (validNewBonds t))
                (map bondStrOf [min (parseInt startStr) (parseInt endStr)
                                  ..<Suc (max (parseInt startStr) (parseInt endStr))]))"
    if m: "rangeMatch segment = Some (startStr, endStr)"
      and span: "max (parseInt startStr) (parseInt endStr)
              - min (parseInt startStr) (parseInt endStr) \<le> MAX_RANGE_SIZE"
  proof -
    from span have "processSegment existing t segment
        = rangeLoop existing (min (parseInt startStr) (parseInt endStr))
            (max (parseInt startStr) (parseInt endStr)) t"
      by (simp add: processSegment_matched [OF m])
    then show ?thesis by (simp only: rangeLoop_accepted rangeLoop_duplicates)
  qed
  have candidate: "bondStr \<in> set existing \<or> bondStr \<in> set (validNewBonds t) \<longrightarrow>
        addCandidate existing bondStr t = t\<lparr>duplicates := duplicates t + 1\<rparr>"
    by (simp add: addCandidate_def)
  have ex: "ingest [''0000006''] ''0000005-0000008,0000005,0000007-0000009''
       = \<lparr>validNewBonds = [''0000005'', ''0000007'', ''0000008'', ''0000009''],
          duplicates = 4, rangeFormatErrors = 0, rangeSizeErrors = 0,
          singleFormatErrors = 0\<rparr>"
    by (simp add: token_eval ingest_eval bondStr_eval del: One_nat_def)
  from session call single range candidate ex show ?thesis by blast
qed

theorem ingestion_sequence_distinct_witness:
  "distinct (bonds (foldl submit initialApp [''0000001,0000001'', ''0000001-0000003'']))
   \<and> singleMatch ''0000006''
   \<and> processSegment [''0000006''] emptyTally ''0000006''
       = \<lparr>validNewBonds = [], duplicates = 1, rangeFormatErrors = 0,
          rangeSizeErrors = 0, singleFormatErrors = 0\<rparr>
   \<and> singleMatch ''0000004''
   \<and> processSegment [''0000006''] emptyTally ''0000004''
       = \<lparr>validNewBonds = [''0000004''], duplicates = 0, rangeFormatErrors = 0,
          rangeSizeErrors = 0, singleFormatErrors = 0\<rparr>
   \<and> rangeMatch ''0000005-0000008'' = Some (''0000005'', ''0000008'')
   \<and> max (parseInt ''0000005'') (parseInt ''0000008'')
         - min (parseInt ''0000005'') (parseInt ''0000008'') \<le> MAX_RANGE_SIZE
   \<and> validNewBonds (processSegment [''0000006'']
         \<lparr>validNewBonds = [''0000007''], duplicates = 0, rangeFormatErrors = 0,
            rangeSizeErrors = 0, singleFormatErrors = 0\<rparr> ''0000005-0000008'')
       = [''0000007'', ''0000005'', ''0000008'']
   \<and> duplicates (processSegment [''0000006'']
         \<lparr>validNewBonds = [''0000007''], duplicates = 0, rangeFormatErrors = 0,
            rangeSizeErrors = 0, singleFormatErrors = 0\<rparr> ''0000005-0000008'') = 2
   \<and> ''0000001'' \<in> set [''0000001'']
   \<and> addCandidate [''0000001''] ''0000001'' emptyTally
       = \<lparr>validNewBonds = [], duplicates = 1, rangeFormatErrors = 0,
          rangeSizeErrors = 0, singleFormatErrors = 0\<rparr>"
proof -
  have s6: "singleMatch ''0000006''" and s4: "singleMatch ''0000004''"
    by (simp_all add: token_eval)
  have m: "rangeMatch ''0000005-0000008'' = Some (''0000005'', ''0000008'')"
    by (simp add: token_eval)
  have p: "parseInt ''0000005'' = 5" "parseInt ''0000008'' = 8"
    by (simp_all add: token_eval)
  have span: "max (parseInt ''0000005'') (parseInt ''0000008'')
         - min (parseInt ''0000005'') (parseInt ''0000008'') \<le> MAX_RANGE_SIZE"
    by (simp add: p MAX_RANGE_SIZE_def)
  have u: "map bondStrOf [min (parseInt ''0000005'') (parseInt ''0000008'')
                            ..<Suc (max (parseInt ''0000005'') (parseInt ''0000008''))]
      = [''0000005'', ''0000006'', ''0000007'', ''0000008'']"
    by (simp add: p upt_rec bondStr_eval)
  have session: "distinct (bonds (foldl submit initialApp
      [''0000001,0000001'', ''0000001-0000003'']))"
    using ingestion_sequence_distinct
      [where inputs = "[''0000001,0000001'', ''0000001-0000003'']"]
    by blast
  have dup: "processSegment [''0000006''] emptyTally ''0000006''
       = \<lparr>validNewBonds = [], duplicates = 1, rangeFormatErrors = 0,
          rangeSizeErrors = 0, singleFormatErrors = 0\<rparr>"
    using ingestion_sequence_distinct
      [where segment = "''0000006''" and existing = "[''0000006'']" and t = emptyTally] s6
    by (simp add: emptyTally_def)
  have new: "processSegment [''0000006''] emptyTally ''0000004''
       = \<lparr>validNewBonds = [''0000004''], duplicates = 0, rangeFormatErrors = 0,
          rangeSizeErrors = 0, singleFormatErrors = 0\<rparr>"
    using ingestion_sequence_distinct
      [where segment = "''0000004''" and existing = "[''0000006'']" and t = emptyTally] s4
    by (simp add: emptyTally_def)
  from ingestion_sequence_distinct
      [where segment = "''0000005-0000008''" and existing = "[''0000006'']"
        and t = "\<lparr>validNewBonds = [''0000007''], duplicates = 0, rangeFormatErrors = 0,
            rangeSizeErrors = 0, singleFormatErrors = 0\<rparr>"
        and startStr = "''0000005''" and endStr = "''0000008''"] m span
  have rng: "validNewBonds (processSegment [''0000006'']
         \<lparr>validNewBonds = [''0000007''], duplicates = 0, rangeFormatErrors = 0,
            rangeSizeErrors = 0, singleFormatErrors = 0\<rparr> ''0000005-0000008'')
       = [''0000007'', ''0000005'', ''0000008'']
     \<and> duplicates (processSegment [''0000006'']
         \<lparr>validNewBonds = [''0000007''], duplicates = 0, rangeFormatErrors = 0,
            rangeSizeErrors = 0, singleFormatErrors = 0\<rparr> ''0000005-0000008'') = 2"
    unfolding u by simp
  have cand: "addCandidate [''0000001''] ''0000001'' emptyTally
       = \<lparr>validNewBonds = [], duplicates = 1, rangeFormatErrors = 0,
          rangeSizeErrors = 0, singleFormatErrors = 0\<rparr>"
    using ingestion_sequence_distinct
      [where existing = "[''0000001'']" and t = emptyTally and bondStr = "''0000001''"]
    by (simp add: emptyTally_def)
  from session s6 dup s4 new m span rng cand show ?thesis by simp
qed

text \<open>
  Claim C2, as amended. A call ends in exactly one of five ways. Blank input: a warning,
  nothing else changes. Otherwise, if identifiers were accepted: they are inserted, the
  input field is cleared and a success message is shown. If none was accepted, there
  was no formatting error and at least one duplicate: a warning, and the input field
  is cleared. If none was accepted and there were formatting errors: a warning whose
  text contains the entry of every error category with a non-zero count, and the input
  field is kept. If none was accepted and there was neither a formatting error nor a
  duplicate (the text held separators only): an error message, and the input field is
  kept.
\<close>

theorem ingestion_outcomes:
  "(let t = ingest (bonds st) (inputValue st); st' = handleProcessInput st in
    (trim (inputValue st) = [] \<longrightarrow>
       st' = st\<lparr>notifications := notifications st
               @ [(Warning, ''Please enter bond numbers to add.'')]\<rparr>)
    \<and> (trim (inputValue st) \<noteq> [] \<and> validNewBonds t \<noteq> [] \<longrightarrow>
       st' = st\<lparr>bonds := rev (validNewBonds t) @ bonds st, inputValue := [],
                notifications := notifications st @ [(Success, addedMessage t)]\<rparr>)
    \<and> (trim (inputValue st) \<noteq> [] \<and> validNewBonds t = [] \<and> \<not> hasFormatErrors t
          \<and> duplicates t > 0 \<longrightarrow>
       st' = st\<lparr>inputValue := [],
                notifications := notifications st
                  @ [(Warning, ''Duplicate bond'' @ plural (duplicates t) @ '' found.'')]\<rparr>)
    \<and> (trim (inputValue st) \<noteq> [] \<and> validNewBonds t = [] \<and> hasFormatErrors t \<longrightarrow>
       st' = st\<lparr>notifications := notifications st
                  @ [(Warning, issueMessage (issueParts t))]\<rparr>
       \<and> (rangeSizeErrors t > 0 \<longrightarrow>
            sublist (toString (rangeSizeErrors t) @ '' ranges too large (max 50000)'')
              (issueMessage (issueParts t)))
       \<and> (rangeFormatErrors t > 0 \<longrightarrow>
            sublist (toString (rangeFormatErrors t)
                       @ '' ranges with invalid digits (must be 7)'')
              (issueMessage (issueParts t)))
       \<and> (singleFormatErrors t > 0 \<longrightarrow>
            sublist (toString (singleFormatErrors t) @ '' invalid number''
                       @ plural (singleFormatErrors t) @ '' (must be 7 digits)'')
              (issueMessage (issueParts t))))
    \<and> (trim (inputValue st) \<noteq> [] \<and> validNewBonds t = [] \<and> \<not> hasFormatErrors t
          \<and> duplicates t = 0 \<longrightarrow>
       st' = st\<lparr>notifications := notifications st
                  @ [(Error, ''No valid bonds found.'')]\<rparr>))"
proof -
  define t where "t = ingest (bonds st) (inputValue st)"
  have blank: "trim (inputValue st) = [] \<Longrightarrow>
      handleProcessInput st = st\<lparr>notifications := notifications st
               @ [(Warning, ''Please enter bond numbers to add.'')]\<rparr>"
    by (simp add: handleProcessInput_def showNotification_def)
  have success: "trim (inputValue st) \<noteq> [] \<Longrightarrow> validNewBonds t \<noteq> [] \<Longrightarrow>
      handleProcessInput st = st\<lparr>bonds := rev (validNewBonds t) @ bonds st, inputValue := [],
                notifications := notifications st @ [(Success, addedMessage t)]\<rparr>"
    by (simp add: handleProcessInput_def showNotification_def t_def Let_def)
  have dups: "trim (inputValue st) \<noteq> [] \<Longrightarrow> validNewBonds t = [] \<Longrightarrow>
      \<not> hasFormatErrors t \<Longrightarrow> duplicates t > 0 \<Longrightarrow>
      handleProcessInput st = st\<lparr>inputValue := [],
                notifications := notifications st
                  @ [(Warning, ''Duplicate bond'' @ plural (duplicates t) @ '' found.'')]\<rparr>"
    by (simp add: handleProcessInput_def showNotification_def t_def Let_def)
  have issues: "trim (inputValue st) \<noteq> [] \<Longrightarrow> validNewBonds t = [] \<Longrightarrow>
      hasFormatErrors t \<Longrightarrow>
      handleProcessInput st = st\<lparr>notifications := notifications st
                  @ [(Warning, issueMessage (issueParts t))]\<rparr>"
    using issueParts_nonempty [of t]
    by (simp add: handleProcessInput_def showNotification_def t_def Let_def)
  have none_found: "trim (inputValue st) \<noteq> [] \<Longrightarrow> validNewBonds t = [] \<Longrightarrow>
      \<not> hasFormatErrors t \<Longrightarrow> duplicates t = 0 \<Longrightarrow>
      handleProcessInput st = st\<lparr>notifications := notifications st
                  @ [(Error, ''No valid bonds found.'')]\<rparr>"
    using issueParts_empty [of t]
    by (simp add: handleProcessInput_def showNotification_def t_def Let_def)
  have listed:
    "rangeSizeErrors t > 0 \<Longrightarrow>
       sublist (toString (rangeSizeErrors t) @ '' ranges too large (max 50000)'')
         (issueMessage (issueParts t))"
    "rangeFormatErrors t > 0 \<Longrightarrow>
       sublist (toString (rangeFormatErrors t) @ '' ranges with invalid digits (must be 7)'')
         (issueMessage (issueParts t))"
    "singleFormatErrors t > 0 \<Longrightarrow>
       sublist (toString (singleFormatErrors t) @ '' invalid number''
                  @ plural (singleFormatErrors t) @ '' (must be 7 digits)'')
         (issueMessage (issueParts t))"
    by (rule sublist_issueMessage, rule issueParts_members, assumption)+
  from blank success dups issues none_found listed show ?thesis
    unfolding Let_def t_def [symmetric] by blast
qed

theorem ingestion_outcomes_witness:
  "trim ''  '' = []
   \<and> handleProcessInput \<lparr>bonds = [''0000001''], inputValue = ''  '', notifications = []\<rparr>
       = \<lparr>bonds = [''0000001''], inputValue = ''  '',
          notifications = [(Warning, ''Please enter bond numbers to add.'')]\<rparr>
   \<and> trim ''0000001,0000001'' \<noteq> [] \<and> validNewBonds (ingest [] ''0000001,0000001'') \<noteq> []
   \<and> handleProcessInput \<lparr>bonds = [], inputValue = ''0000001,0000001'', notifications = []\<rparr>
       = \<lparr>bonds = [''0000001''], inputValue = [],
          notifications = [(Success, ''Added 1 bond. 1 duplicate skipped.'')]\<rparr>
   \<and> trim ''0000001'' \<noteq> [] \<and> validNewBonds (ingest [''0000001''] ''0000001'') = []
   \<and> \<not> hasFormatErrors (ingest [''0000001''] ''0000001'')
   \<and> duplicates (ingest [''0000001''] ''0000001'') > 0
   \<and> handleProcessInput \<lparr>bonds = [''0000001''], inputValue = ''0000001'', notifications = []\<rparr>
       = \<lparr>bonds = [''0000001''], inputValue = [],
          notifications = [(Warning, ''Duplicate bond found.'')]\<rparr>
   \<and> trim ''0000001, 12-3456789 0000000-0050001 77'' \<noteq> []
   \<and> validNewBonds (ingest [''0000001''] ''0000001, 12-3456789 0000000-0050001 77'') = []
   \<and> hasFormatErrors (ingest [''0000001''] ''0000001, 12-3456789 0000000-0050001 77'')
   \<and> handleProcessInput \<lparr>bonds = [''0000001''],
        inputValue = ''0000001, 12-3456789 0000000-0050001 77'', notifications = []\<rparr>
       = \<lparr>bonds = [''0000001''], inputValue = ''0000001, 12-3456789 0000000-0050001 77'',
          notifications = [(Warning, ''Issues: 1 duplicate, 1 ranges too large (max 50000), 1 ranges with invalid digits (must be 7), 1 invalid number (must be 7 digits).'')]\<rparr>
   \<and> sublist ''1 ranges too large (max 50000)'' ''Issues: 1 duplicate, 1 ranges too large (max 50000), 1 ranges with invalid digits (must be 7), 1 invalid number (must be 7 digits).''
   \<and> sublist ''1 ranges with invalid digits (must be 7)'' ''Issues: 1 duplicate, 1 ranges too large (max 50000), 1 ranges with invalid digits (must be 7), 1 invalid number (must be 7 digits).''
   \<and> sublist ''1 invalid number (must be 7 digits)'' ''Issues: 1 duplicate, 1 ranges too large (max 50000), 1 ranges with invalid digits (must be 7), 1 invalid number (must be 7 digits).''
   \<and> trim '','' \<noteq> [] \<and> validNewBonds (ingest [] '','') = []
   \<and> \<not> hasFormatErrors (ingest [] '','') \<and> duplicates (ingest [] '','') = 0
   \<and> handleProcessInput \<lparr>bonds = [], inputValue = '','', notifications = []\<rparr>
       = \<lparr>bonds = [], inputValue = '','', notifications = [(Error, ''No valid bonds found.'')]\<rparr>"
proof -
  have t1: "trim ''  '' = []" by (simp add: token_eval)
  have t2: "trim ''0000001,0000001'' \<noteq> []" by (simp add: token_eval)
  have i2: "ingest [] ''0000001,0000001''
      = \<lparr>validNewBonds = [''0000001''], duplicates = 1, rangeFormatErrors = 0,
         rangeSizeErrors = 0, singleFormatErrors = 0\<rparr>"
    by (simp add: token_eval ingest_eval)
  have t3: "trim ''0000001'' \<noteq> []" by (simp add: token_eval)
  have i3: "ingest [''0000001''] ''0000001''
      = \<lparr>validNewBonds = [], duplicates = 1, rangeFormatErrors = 0,
         rangeSizeErrors = 0, singleFormatErrors = 0\<rparr>"
    by (simp add: token_eval ingest_eval)
  have t4: "trim ''0000001, 12-3456789 0000000-0050001 77'' \<noteq> []" by (simp add: token_eval)
  have i4: "ingest [''0000001''] ''0000001, 12-3456789 0000000-0050001 77''
      = \<lparr>validNewBonds = [], duplicates = 1, rangeFormatErrors = 1,
         rangeSizeErrors = 1, singleFormatErrors = 1\<rparr>"
    by (simp add: token_eval ingest_eval)
  have t5: "trim '','' \<noteq> []" by (simp add: token_eval)
  have i5: "ingest [] '','' = \<lparr>validNewBonds = [], duplicates = 0, rangeFormatErrors = 0,
         rangeSizeErrors = 0, singleFormatErrors = 0\<rparr>"
    by (simp add: token_eval ingest_eval)
  have one: "toString 1 = ''1''" "toString (Suc 0) = ''1''"
    "toString MAX_RANGE_SIZE = ''50000''"
    by (simp_all add: toString.simps char_of_digit MAX_RANGE_SIZE_def)
  have r1: "handleProcessInput \<lparr>bonds = [''0000001''], inputValue = ''  '', notifications = []\<rparr>
       = \<lparr>bonds = [''0000001''], inputValue = ''  '',
          notifications = [(Warning, ''Please enter bond numbers to add.'')]\<rparr>"
    using ingestion_outcomes
      [of "\<lparr>bonds = [''0000001''], inputValue = ''  '', notifications = []\<rparr>"] t1
    by (simp add: Let_def)
  have r2: "handleProcessInput \<lparr>bonds = [], inputValue = ''0000001,0000001'', notifications = []\<rparr>
       = \<lparr>bonds = [''0000001''], inputValue = [],
          notifications = [(Success, ''Added 1 bond. 1 duplicate skipped.'')]\<rparr>"
    using ingestion_outcomes
      [of "\<lparr>bonds = [], inputValue = ''0000001,0000001'', notifications = []\<rparr>"] t2
    by (simp add: Let_def i2 addedMessage_def plural_def one)
  have r3: "handleProcessInput \<lparr>bonds = [''0000001''], inputValue = ''0000001'', notifications = []\<rparr>
       = \<lparr>bonds = [''0000001''], inputValue = [],
          notifications = [(Warning, ''Duplicate bond found.'')]\<rparr>"
    using ingestion_outcomes
      [of "\<lparr>bonds = [''0000001''], inputValue = ''0000001'', notifications = []\<rparr>"] t3
    by (simp add: Let_def i3 hasFormatErrors_def plural_def)
  have r4: "handleProcessInput \<lparr>bonds = [''0000001''],
        inputValue = ''0000001, 12-3456789 0000000-0050001 77'', notifications = []\<rparr>
       = \<lparr>bonds = [''0000001''], inputValue = ''0000001, 12-3456789 0000000-0050001 77'',
          notifications = [(Warning, ''Issues: 1 duplicate, 1 ranges too large (max 50000), 1 ranges with invalid digits (must be 7), 1 invalid number (must be 7 digits).'')]\<rparr>
   \<and> sublist ''1 ranges too large (max 50000)'' ''Issues: 1 duplicate, 1 ranges too large (max 50000), 1 ranges with invalid digits (must be 7), 1 invalid number (must be 7 digits).''
   \<and> sublist ''1 ranges with invalid digits (must be 7)'' ''Issues: 1 duplicate, 1 ranges too large (max 50000), 1 ranges with invalid digits (must be 7), 1 invalid number (must be 7 digits).''
   \<and> sublist ''1 invalid number (must be 7 digits)'' ''Issues: 1 duplicate, 1 ranges too large (max 50000), 1 ranges with invalid digits (must be 7), 1 invalid number (must be 7 digits).''"
    using ingestion_outcomes
      [of "\<lparr>bonds = [''0000001''],
        inputValue = ''0000001, 12-3456789 0000000-0050001 77'', notifications = []\<rparr>"] t4
    by (simp add: Let_def i4 hasFormatErrors_def plural_def issueParts_def issueMessage_def one)
  have r5: "handleProcessInput \<lparr>bonds = [], inputValue = '','', notifications = []\<rparr>
       = \<lparr>bonds = [], inputValue = '','', notifications = [(Error, ''No valid bonds found.'')]\<rparr>"
    using ingestion_outcomes
      [of "\<lparr>bonds = [], inputValue = '','', notifications = []\<rparr>"] t5
    by (simp add: Let_def i5 hasFormatErrors_def)
  show ?thesis
    using t1 t2 t3 t4 t5 r1 r2 r3 r4 r5 by (simp add: i2 i3 i4 i5 hasFormatErrors_def)
qed

text \<open>
  The claim as written knows three outcomes only. For the text \<^verbatim>\<open>,\<close> nothing is
  accepted and there is no formatting error, yet no warning is issued and the input field
  is not cleared.
\<close>

theorem three_outcomes_counterexample:
  "trim '','' \<noteq> [] \<and> validNewBonds (ingest [] '','') = []
   \<and> \<not> hasFormatErrors (ingest [] '','')
   \<and> handleProcessInput \<lparr>bonds = [], inputValue = '','', notifications = []\<rparr>
       = \<lparr>bonds = [], inputValue = '','', notifications = [(Error, ''No valid bonds found.'')]\<rparr>"
  by (simp add: handler_eval token_eval ingest_eval)

text \<open>
  Claim C3. A range token whose span, upper bound minus lower bound after the swap, is
  greater than \<^const>\<open>MAX_RANGE_SIZE\<close> leaves every variable of the call as it was,
  the accepted identifiers included, except that the range-too-large counter grows by
  exactly one: nothing of the range is expanded.
\<close>

theorem oversized_range_rejected:
  "rangeMatch segment = Some (startStr, endStr) \<Longrightarrow>
   max (parseInt startStr) (parseInt endStr) - min (parseInt startStr) (parseInt endStr)
     > MAX_RANGE_SIZE \<Longrightarrow>
   processSegment existing t segment = t\<lparr>rangeSizeErrors := rangeSizeErrors t + 1\<rparr>"
  by (auto simp: processSegment_def Let_def max_def min_def split: if_splits)

theorem oversized_range_rejected_witness:
  "rangeMatch ''0000000-0050001'' = Some (''0000000'', ''0050001'')
   \<and> max (parseInt ''0000000'') (parseInt ''0050001'')
         - min (parseInt ''0000000'') (parseInt ''0050001'') > MAX_RANGE_SIZE
   \<and> processSegment [] emptyTally ''0000000-0050001''
       = \<lparr>validNewBonds = [], duplicates = 0, rangeFormatErrors = 0,
          rangeSizeErrors = 1, singleFormatErrors = 0\<rparr>"
proof -
  have m: "rangeMatch ''0000000-0050001'' = Some (''0000000'', ''0050001'')"
    by (simp add: token_eval)
  have span: "max (parseInt ''0000000'') (parseInt ''0050001'')
         - min (parseInt ''0000000'') (parseInt ''0050001'') > MAX_RANGE_SIZE"
    by (simp add: token_eval MAX_RANGE_SIZE_def)
  from oversized_range_rejected [OF m span, of "[]" emptyTally]
  show ?thesis using m span by (simp add: emptyTally_def)
qed

text \<open>
  Claim C4. A range token whose first bound is numerically greater than its second is
  processed exactly as the token with the two bounds exchanged: within the cap it raises
  no range-too-large count and, met with an empty collection, contributes the renderings
  from the smaller to the greater bound in ascending order. The token
  \<^verbatim>\<open>0000008-0000005\<close> gives \<^verbatim>\<open>0000005\<close>, \<^verbatim>\<open>0000006\<close>, \<^verbatim>\<open>0000007\<close>,
  \<^verbatim>\<open>0000008\<close>.
\<close>

theorem inverted_range_swapped:
  "(rangeMatch segment = Some (startStr, endStr) \<and> parseInt startStr > parseInt endStr \<longrightarrow>
      processSegment existing t segment = processSegment existing t (endStr @ ''-'' @ startStr)
      \<and> (parseInt startStr - parseInt endStr \<le> MAX_RANGE_SIZE \<longrightarrow>
           rangeSizeErrors (processSegment existing t segment) = rangeSizeErrors t
           \<and> validNewBonds (processSegment [] emptyTally segment)
               = map bondStrOf [parseInt endStr..<Suc (parseInt startStr)]))
   \<and> validNewBonds (ingest [] ''0000008-0000005'')
       = [''0000005'', ''0000006'', ''0000007'', ''0000008'']"
proof -
  have ex: "validNewBonds (ingest [] ''0000008-0000005'')
       = [''0000005'', ''0000006'', ''0000007'', ''0000008'']"
    by (simp add: token_eval ingest_eval bondStr_eval del: One_nat_def)
  have gen: "processSegment existing t segment
        = processSegment existing t (endStr @ ''-'' @ startStr)
      \<and> (parseInt startStr - parseInt endStr \<le> MAX_RANGE_SIZE \<longrightarrow>
           rangeSizeErrors (processSegment existing t segment) = rangeSizeErrors t
           \<and> validNewBonds (processSegment [] emptyTally segment)
               = map bondStrOf [parseInt endStr..<Suc (parseInt startStr)])"
    if m: "rangeMatch segment = Some (startStr, endStr)"
      and gt: "parseInt startStr > parseInt endStr"
  proof -
    from rangeMatch_SomeD [OF m]
    have m': "rangeMatch (endStr @ ''-'' @ startStr) = Some (endStr, startStr)"
      by (intro rangeMatch_hyphenated)
    from m m' gt have swap: "processSegment existing t segment
        = processSegment existing t (endStr @ ''-'' @ startStr)"
      by (simp add: processSegment_def Let_def)
    have "rangeSizeErrors (processSegment existing t segment) = rangeSizeErrors t
           \<and> validNewBonds (processSegment [] emptyTally segment)
               = map bondStrOf [parseInt endStr..<Suc (parseInt startStr)]"
      if span: "parseInt startStr - parseInt endStr \<le> MAX_RANGE_SIZE"
    proof -
      from gt span have "processSegment ex u segment
          = rangeLoop ex (parseInt endStr) (parseInt startStr) u" for ex u
        by (intro processSegment_range [OF m]) (simp_all add: min_def max_def)
      then show ?thesis
        by (simp add: rangeLoop_accepted rangeLoop_counters emptyTally_def)
    qed
    with swap show ?thesis by blast
  qed
  from ex gen show ?thesis by blast
qed

theorem inverted_range_swapped_witness:
  "rangeMatch ''0000008-0000005'' = Some (''0000008'', ''0000005'')
   \<and> parseInt ''0000008'' > parseInt ''0000005''
   \<and> parseInt ''0000008'' - parseInt ''0000005'' \<le> MAX_RANGE_SIZE
   \<and> processSegment [''0000006''] emptyTally ''0000008-0000005''
       = processSegment [''0000006''] emptyTally ''0000005-0000008''
   \<and> rangeSizeErrors (processSegment [''0000006''] emptyTally ''0000008-0000005'')
       = rangeSizeErrors emptyTally
   \<and> validNewBonds (processSegment [] emptyTally ''0000008-0000005'')
       = map bondStrOf [5, 6, 7, 8]"
proof -
  have m: "rangeMatch ''0000008-0000005'' = Some (''0000008'', ''0000005'')"
    by (simp add: token_eval)
  have p: "parseInt ''0000005'' = 5" "parseInt ''0000008'' = 8"
    by (simp_all add: token_eval)
  have gt: "parseInt ''0000008'' > parseInt ''0000005''"
    and span: "parseInt ''0000008'' - parseInt ''0000005'' \<le> MAX_RANGE_SIZE"
    by (simp_all add: p MAX_RANGE_SIZE_def)
  have u: "[parseInt ''0000005''..<Suc (parseInt ''0000008'')] = [5, 6, 7, 8]"
    by (simp add: p upt_rec)
  have cat: "''0000005'' @ ''-'' @ ''0000008'' = ''0000005-0000008''" by simp
  from inverted_range_swapped
    [of "''0000008-0000005''" "''0000008''" "''0000005''" "[''0000006'']" emptyTally]
    m gt span
  have "processSegment [''0000006''] emptyTally ''0000008-0000005''
       = processSegment [''0000006''] emptyTally (''0000005'' @ ''-'' @ ''0000008'')"
    and "rangeSizeErrors (processSegment [''0000006''] emptyTally ''0000008-0000005'')
       = rangeSizeErrors emptyTally"
    and "validNewBonds (processSegment [] emptyTally ''0000008-0000005'')
       = map bondStrOf [parseInt ''0000005''..<Suc (parseInt ''0000008'')]"
    by blast+
  with m gt span show ?thesis unfolding u cat by blast
qed

text \<open>
  Claim C5. When identifiers are accepted, the collection after the call is the accepted
  identifiers in reverse order of acceptance, as one block, followed by the old
  collection. The range \<^verbatim>\<open>0000001-0000003\<close> submitted to the empty collection gives
  \<^verbatim>\<open>0000003\<close>, \<^verbatim>\<open>0000002\<close>, \<^verbatim>\<open>0000001\<close>.
\<close>

theorem insertion_prepends_reversed_block:
  "(validNewBonds (ingest (bonds st) (inputValue st)) \<noteq> [] \<longrightarrow>
      bonds (handleProcessInput st)
        = rev (validNewBonds (ingest (bonds st) (inputValue st))) @ bonds st)
   \<and> bonds (handleProcessInput
        \<lparr>bonds = [], inputValue = ''0000001-0000003'', notifications = []\<rparr>)
       = [''0000003'', ''0000002'', ''0000001'']"
proof -
  have "bonds (handleProcessInput
        \<lparr>bonds = [], inputValue = ''0000001-0000003'', notifications = []\<rparr>)
       = [''0000003'', ''0000002'', ''0000001'']"
    by (simp add: handler_eval token_eval ingest_eval bondStr_eval del: One_nat_def)
  moreover have "validNewBonds (ingest (bonds st) (inputValue st)) \<noteq> [] \<longrightarrow>
      bonds (handleProcessInput st)
        = rev (validNewBonds (ingest (bonds st) (inputValue st))) @ bonds st"
    using accepted_blank [of st] by (auto simp: bonds_handleProcessInput)
  ultimately show ?thesis by simp
qed

theorem insertion_prepends_reversed_block_witness:
  "validNewBonds (ingest [''0000006''] ''0000005-0000008'')
     = [''0000005'', ''0000007'', ''0000008'']
   \<and> bonds (handleProcessInput
        \<lparr>bonds = [''0000006''], inputValue = ''0000005-0000008'', notifications = []\<rparr>)
       = [''0000008'', ''0000007'', ''0000005'', ''0000006'']"
proof -
  have a: "validNewBonds (ingest [''0000006''] ''0000005-0000008'')
     = [''0000005'', ''0000007'', ''0000008'']"
    by (simp add: token_eval ingest_eval bondStr_eval del: One_nat_def)
  from insertion_prepends_reversed_block [of
      "\<lparr>bonds = [''0000006''], inputValue = ''0000005-0000008'', notifications = []\<rparr>"]
  show ?thesis using a by simp
qed

text \<open>
  Claim C6, as amended. When the submitted text is one range token, the collection after
  the call is the accepted identifiers in reverse order of acceptance followed by the
  old collection, and that new block is strictly descending in numeric value: the
  highest-valued new identifier of the range comes first in the block and the
  lowest-valued last.
\<close>

theorem range_block_highest_first:
  "segmentsOf (inputValue st) = [segment] \<and> rangeMatch segment = Some (startStr, endStr) \<longrightarrow>
     bonds (handleProcessInput st)
       = rev (validNewBonds (ingest (bonds st) (inputValue st))) @ bonds st
     \<and> sorted_wrt (\<lambda>x y. parseInt x > parseInt y)
         (rev (validNewBonds (ingest (bonds st) (inputValue st))))"
proof (intro impI, elim conjE)
  assume segs: "segmentsOf (inputValue st) = [segment]"
    and m: "rangeMatch segment = Some (startStr, endStr)"
  from segs have "trim (inputValue st) \<noteq> []" using segmentsOf_blank by fastforce
  then have "bonds (handleProcessInput st)
       = rev (validNewBonds (ingest (bonds st) (inputValue st))) @ bonds st"
    by (simp add: bonds_handleProcessInput)
  moreover from segs have "ingest (bonds st) (inputValue st)
      = processSegment (bonds st) emptyTally segment"
    by (simp add: ingest_def)
  with accepted_of_range_ascending [OF m, of "bonds st"]
  have "sorted_wrt (\<lambda>x y. parseInt x > parseInt y)
         (rev (validNewBonds (ingest (bonds st) (inputValue st))))"
    by (simp add: sorted_wrt_rev)
  ultimately show "bonds (handleProcessInput st)
       = rev (validNewBonds (ingest (bonds st) (inputValue st))) @ bonds st
     \<and> sorted_wrt (\<lambda>x y. parseInt x > parseInt y)
         (rev (validNewBonds (ingest (bonds st) (inputValue st))))" by blast
qed

theorem range_block_highest_first_witness:
  "segmentsOf ''0000005-0000008'' = [''0000005-0000008'']
   \<and> rangeMatch ''0000005-0000008'' = Some (''0000005'', ''0000008'')
   \<and> bonds (handleProcessInput
        \<lparr>bonds = [''0000006''], inputValue = ''0000005-0000008'', notifications = []\<rparr>)
       = [''0000008'', ''0000007'', ''0000005'', ''0000006'']
   \<and> sorted_wrt (\<lambda>x y. parseInt x > parseInt y) [''0000008'', ''0000007'', ''0000005'']"
proof -
  have s: "segmentsOf ''0000005-0000008'' = [''0000005-0000008'']"
    and m: "rangeMatch ''0000005-0000008'' = Some (''0000005'', ''0000008'')"
    by (simp_all add: token_eval)
  have a: "validNewBonds (ingest [''0000006''] ''0000005-0000008'')
     = [''0000005'', ''0000007'', ''0000008'']"
    by (simp add: token_eval ingest_eval bondStr_eval del: One_nat_def)
  from range_block_highest_first [of
      "\<lparr>bonds = [''0000006''], inputValue = ''0000005-0000008'', notifications = []\<rparr>"
      "''0000005-0000008''" "''0000005''" "''0000008''"] s m
  have "bonds (handleProcessInput
        \<lparr>bonds = [''0000006''], inputValue = ''0000005-0000008'', notifications = []\<rparr>)
       = rev (validNewBonds (ingest [''0000006''] ''0000005-0000008'')) @ [''0000006'']
     \<and> sorted_wrt (\<lambda>x y. parseInt x > parseInt y)
         (rev (validNewBonds (ingest [''0000006''] ''0000005-0000008'')))"
    by simp
  with s m show ?thesis unfolding a by simp
qed

text \<open>
  The claim as written, that the lowest-valued new identifier comes first in the new
  block, fails: of the accepted \<^verbatim>\<open>0000005\<close>, \<^verbatim>\<open>0000007\<close>, \<^verbatim>\<open>0000008\<close> the
  block starts with \<^verbatim>\<open>0000008\<close>.
\<close>

theorem lowest_first_counterexample:
  "validNewBonds (ingest [''0000006''] ''0000005-0000008'')
     = [''0000005'', ''0000007'', ''0000008'']
   \<and> parseInt ''0000005'' < parseInt ''0000007'' \<and> parseInt ''0000005'' < parseInt ''0000008''
   \<and> take 3 (bonds (handleProcessInput
        \<lparr>bonds = [''0000006''], inputValue = ''0000005-0000008'', notifications = []\<rparr>))
       = [''0000008'', ''0000007'', ''0000005'']
   \<and> hd (bonds (handleProcessInput
        \<lparr>bonds = [''0000006''], inputValue = ''0000005-0000008'', notifications = []\<rparr>))
       \<noteq> ''0000005''"
  by (simp add: handler_eval token_eval ingest_eval bondStr_eval del: One_nat_def)

text \<open>
  Claim C7. A token is first tried against the strict range pattern: when it matches,
  it is processed as a range, swapped, checked against the cap and expanded, and
  although it holds a hyphen neither malformed counter moves. Failing that, a hyphen
  anywhere in it puts it in the range-malformed bucket; only a token without a hyphen
  is tried against the strict single pattern, to become a candidate when it matches and
  to be counted as single-malformed when it does not. The token \<^verbatim>\<open>12-3456789\<close>
  raises the range-malformed counter and nothing else, while \<^verbatim>\<open>0000001-0000003\<close>
  is expanded.
\<close>

theorem classification_precedence:
  "(rangeMatch segment = Some (startStr, endStr) \<longrightarrow>
      CHR ''-'' \<in> set segment
      \<and> processSegment existing t segment
          = (if MAX_RANGE_SIZE
                 < max (parseInt startStr) (parseInt endStr)
                   - min (parseInt startStr) (parseInt endStr)
             then t\<lparr>rangeSizeErrors := rangeSizeErrors t + 1\<rparr>
             else rangeLoop existing (min (parseInt startStr) (parseInt endStr))
                    (max (parseInt startStr) (parseInt endStr)) t)
      \<and> rangeFormatErrors (processSegment existing t segment) = rangeFormatErrors t
      \<and> singleFormatErrors (processSegment existing t segment) = singleFormatErrors t)
   \<and> (rangeMatch segment = None \<and> CHR ''-'' \<in> set segment \<longrightarrow>
      processSegment existing t segment = t\<lparr>rangeFormatErrors := rangeFormatErrors t + 1\<rparr>)
   \<and> (rangeMatch segment = None \<and> CHR ''-'' \<notin> set segment \<and> singleMatch segment \<longrightarrow>
      processSegment existing t segment = addCandidate existing segment t)
   \<and> (rangeMatch segment = None \<and> CHR ''-'' \<notin> set segment \<and> \<not> singleMatch segment \<longrightarrow>
      processSegment existing t segment = t\<lparr>singleFormatErrors := singleFormatErrors t + 1\<rparr>)
   \<and> processSegment existing t ''12-3456789''
       = t\<lparr>rangeFormatErrors := rangeFormatErrors t + 1\<rparr>
   \<and> processSegment [] emptyTally ''0000001-0000003''
       = \<lparr>validNewBonds = [''0000001'', ''0000002'', ''0000003''], duplicates = 0,
          rangeFormatErrors = 0, rangeSizeErrors = 0, singleFormatErrors = 0\<rparr>"
proof -
  have matched: "CHR ''-'' \<in> set segment
      \<and> processSegment existing t segment
          = (if MAX_RANGE_SIZE
                 < max (parseInt startStr) (parseInt endStr)
                   - min (parseInt startStr) (parseInt endStr)
             then t\<lparr>rangeSizeErrors := rangeSizeErrors t + 1\<rparr>
             else rangeLoop existing (min (parseInt startStr) (parseInt endStr))
                    (max (parseInt startStr) (parseInt endStr)) t)
      \<and> rangeFormatErrors (processSegment existing t segment) = rangeFormatErrors t
      \<and> singleFormatErrors (processSegment existing t segment) = singleFormatErrors t"
    if m: "rangeMatch segment = Some (startStr, endStr)"
    using rangeMatch_hyphen [OF m] processSegment_matched [OF m, of existing t]
    by (simp add: rangeLoop_counters)
  have unmatched:
    "rangeMatch segment = None \<and> CHR ''-'' \<in> set segment \<longrightarrow>
      processSegment existing t segment = t\<lparr>rangeFormatErrors := rangeFormatErrors t + 1\<rparr>"
    "rangeMatch segment = None \<and> CHR ''-'' \<notin> set segment \<and> singleMatch segment \<longrightarrow>
      processSegment existing t segment = addCandidate existing segment t"
    "rangeMatch segment = None \<and> CHR ''-'' \<notin> set segment \<and> \<not> singleMatch segment \<longrightarrow>
      processSegment existing t segment = t\<lparr>singleFormatErrors := singleFormatErrors t + 1\<rparr>"
    by (simp_all add: processSegment_def)
  have "rangeMatch ''12-3456789'' = None" by (simp add: token_eval)
  then have bad: "processSegment existing t ''12-3456789''
       = t\<lparr>rangeFormatErrors := rangeFormatErrors t + 1\<rparr>"
    by (simp add: processSegment_def)
  have good: "processSegment [] emptyTally ''0000001-0000003''
       = \<lparr>validNewBonds = [''0000001'', ''0000002'', ''0000003''], duplicates = 0,
          rangeFormatErrors = 0, rangeSizeErrors = 0, singleFormatErrors = 0\<rparr>"
    by (simp add: token_eval ingest_eval bondStr_eval del: One_nat_def)
  from matched unmatched bad good show ?thesis by blast
qed

theorem classification_precedence_witness:
  "rangeMatch ''0000003-0000001'' = Some (''0000003'', ''0000001'')
   \<and> CHR ''-'' \<in> set ''0000003-0000001''
   \<and> processSegment [''0000002''] emptyTally ''0000003-0000001''
       = rangeLoop [''0000002''] 1 3 emptyTally
   \<and> rangeFormatErrors (processSegment [''0000002''] emptyTally ''0000003-0000001'') = 0
   \<and> singleFormatErrors (processSegment [''0000002''] emptyTally ''0000003-0000001'') = 0
   \<and> rangeMatch ''12-3456789'' = None \<and> CHR ''-'' \<in> set ''12-3456789''
   \<and> processSegment [] emptyTally ''12-3456789''
       = \<lparr>validNewBonds = [], duplicates = 0, rangeFormatErrors = 1,
          rangeSizeErrors = 0, singleFormatErrors = 0\<rparr>
   \<and> rangeMatch ''1234567'' = None \<and> CHR ''-'' \<notin> set ''1234567'' \<and> singleMatch ''1234567''
   \<and> processSegment [] emptyTally ''1234567''
       = \<lparr>validNewBonds = [''1234567''], duplicates = 0, rangeFormatErrors = 0,
          rangeSizeErrors = 0, singleFormatErrors = 0\<rparr>
   \<and> rangeMatch ''123'' = None \<and> CHR ''-'' \<notin> set ''123'' \<and> \<not> singleMatch ''123''
   \<and> processSegment [] emptyTally ''123''
       = \<lparr>validNewBonds = [], duplicates = 0, rangeFormatErrors = 0,
          rangeSizeErrors = 0, singleFormatErrors = 1\<rparr>"
proof -
  have a: "rangeMatch ''12-3456789'' = None" by (simp add: token_eval)
  have b: "rangeMatch ''123'' = None" by (simp add: token_eval)
  have c: "\<not> singleMatch ''123''" by (simp add: singleMatch_def)
  have d: "rangeMatch ''1234567'' = None" by (simp add: token_eval)
  have e: "singleMatch ''1234567''" by (simp add: token_eval)
  have m: "rangeMatch ''0000003-0000001'' = Some (''0000003'', ''0000001'')"
    by (simp add: token_eval)
  have p: "parseInt ''0000003'' = 3" "parseInt ''0000001'' = 1"
    by (simp_all add: token_eval)
  from classification_precedence
      [where segment = "''0000003-0000001''" and startStr = "''0000003''"
        and endStr = "''0000001''" and existing = "[''0000002'']" and t = emptyTally] m
  have r: "CHR ''-'' \<in> set ''0000003-0000001''
   \<and> processSegment [''0000002''] emptyTally ''0000003-0000001''
       = rangeLoop [''0000002''] 1 3 emptyTally
   \<and> rangeFormatErrors (processSegment [''0000002''] emptyTally ''0000003-0000001'') = 0
   \<and> singleFormatErrors (processSegment [''0000002''] emptyTally ''0000003-0000001'') = 0"
    by (simp add: p MAX_RANGE_SIZE_def emptyTally_def rangeLoop_counters del: One_nat_def)
  from classification_precedence
      [where segment = "''12-3456789''" and existing = "[]" and t = emptyTally]
    classification_precedence
      [where segment = "''123''" and existing = "[]" and t = emptyTally]
    classification_precedence
      [where segment = "''1234567''" and existing = "[]" and t = emptyTally]
  have rest: "processSegment [] emptyTally ''12-3456789''
       = \<lparr>validNewBonds = [], duplicates = 0, rangeFormatErrors = 1,
          rangeSizeErrors = 0, singleFormatErrors = 0\<rparr>
   \<and> processSegment [] emptyTally ''1234567''
       = \<lparr>validNewBonds = [''1234567''], duplicates = 0, rangeFormatErrors = 0,
          rangeSizeErrors = 0, singleFormatErrors = 0\<rparr>
   \<and> processSegment [] emptyTally ''123''
       = \<lparr>validNewBonds = [], duplicates = 0, rangeFormatErrors = 0,
          rangeSizeErrors = 0, singleFormatErrors = 1\<rparr>"
    using a b c d e by (simp add: emptyTally_def addCandidate_def)
  have h: "CHR ''-'' \<in> set ''12-3456789''" "CHR ''-'' \<notin> set ''1234567''"
    "CHR ''-'' \<notin> set ''123''"
    by simp_all
  from m r a d e b c h rest show ?thesis by blast
qed

text \<open>
  Claim C8. A single identifier that occurs twice in one call is accepted once and
  counted as a duplicate once: the text \<^verbatim>\<open>0000001,0000001\<close> submitted to the empty
  collection leaves one accepted identifier, a duplicate count of one and no other count.
\<close>

theorem duplicate_within_call:
  "(singleMatch s \<longrightarrow>
      foldl (processSegment []) emptyTally [s, s]
        = emptyTally\<lparr>validNewBonds := [s], duplicates := 1\<rparr>)
   \<and> ingest [] ''0000001,0000001''
       = \<lparr>validNewBonds = [''0000001''], duplicates = 1, rangeFormatErrors = 0,
          rangeSizeErrors = 0, singleFormatErrors = 0\<rparr>"
proof -
  have "ingest [] ''0000001,0000001''
       = \<lparr>validNewBonds = [''0000001''], duplicates = 1, rangeFormatErrors = 0,
          rangeSizeErrors = 0, singleFormatErrors = 0\<rparr>"
    by (simp add: token_eval ingest_eval)
  moreover have "foldl (processSegment []) emptyTally [s, s]
        = emptyTally\<lparr>validNewBonds := [s], duplicates := 1\<rparr>" if "singleMatch s"
    using that singleMatch_not_range [OF that] singleMatch_no_hyphen [OF that]
    by (simp add: processSegment_def addCandidate_def emptyTally_def)
  ultimately show ?thesis by blast
qed

theorem duplicate_within_call_witness:
  "singleMatch ''1234567''
   \<and> foldl (processSegment []) emptyTally [''1234567'', ''1234567'']
       = \<lparr>validNewBonds = [''1234567''], duplicates = 1, rangeFormatErrors = 0,
          rangeSizeErrors = 0, singleFormatErrors = 0\<rparr>"
proof -
  have a: "singleMatch ''1234567''" by (simp add: token_eval)
  from duplicate_within_call [of "''1234567''"] show ?thesis
    using a by (simp add: emptyTally_def)
qed

text \<open>
  Claim C9. A range token whose first bound is not above its second and whose span is
  within the cap, met with an empty collection and nothing accepted yet, contributes the
  renderings of every integer from the first bound to the second, both included, in
  ascending order; each rendering is seven decimal digits long and reads back as the
  integer it renders. The token \<^verbatim>\<open>0000005-0000008\<close> gives \<^verbatim>\<open>0000005\<close>,
  \<^verbatim>\<open>0000006\<close>, \<^verbatim>\<open>0000007\<close>, \<^verbatim>\<open>0000008\<close>.
\<close>

theorem range_expansion_inclusive_padded:
  "(rangeMatch segment = Some (startStr, endStr)
      \<and> parseInt startStr \<le> parseInt endStr
      \<and> parseInt endStr - parseInt startStr \<le> MAX_RANGE_SIZE \<longrightarrow>
    validNewBonds (processSegment [] emptyTally segment)
      = map bondStrOf [parseInt startStr..<Suc (parseInt endStr)]
    \<and> (\<forall>i\<in>set [parseInt startStr..<Suc (parseInt endStr)].
          length (bondStrOf i) = 7 \<and> list_all isDigit (bondStrOf i)
          \<and> parseInt (bondStrOf i) = i))
   \<and> validNewBonds (ingest [] ''0000005-0000008'')
       = [''0000005'', ''0000006'', ''0000007'', ''0000008'']"
proof -
  have ex: "validNewBonds (ingest [] ''0000005-0000008'')
       = [''0000005'', ''0000006'', ''0000007'', ''0000008'']"
    by (simp add: token_eval ingest_eval bondStr_eval del: One_nat_def)
  have gen: "validNewBonds (processSegment [] emptyTally segment)
      = map bondStrOf [parseInt startStr..<Suc (parseInt endStr)]
    \<and> (\<forall>i\<in>set [parseInt startStr..<Suc (parseInt endStr)].
          length (bondStrOf i) = 7 \<and> list_all isDigit (bondStrOf i)
          \<and> parseInt (bondStrOf i) = i)"
    if m: "rangeMatch segment = Some (startStr, endStr)"
      and le: "parseInt startStr \<le> parseInt endStr"
      and span: "parseInt endStr - parseInt startStr \<le> MAX_RANGE_SIZE"
  proof -
    from le span have "processSegment [] emptyTally segment
        = rangeLoop [] (parseInt startStr) (parseInt endStr) emptyTally"
      by (intro processSegment_range [OF m]) (simp_all add: min_def max_def)
    then have "validNewBonds (processSegment [] emptyTally segment)
        = map bondStrOf [parseInt startStr..<Suc (parseInt endStr)]"
      by (simp add: rangeLoop_accepted emptyTally_def)
    moreover have "length (bondStrOf i) = 7 \<and> list_all isDigit (bondStrOf i)
          \<and> parseInt (bondStrOf i) = i"
      if "i \<in> set [parseInt startStr..<Suc (parseInt endStr)]" for i
    proof -
      from that have "i \<le> parseInt endStr" by auto
      with rangeMatch_bounds(2) [OF m] have "i < 10 ^ 7" by simp
      then show ?thesis by (simp add: bondStrOf_shape parseInt_bondStrOf)
    qed
    ultimately show ?thesis by blast
  qed
  from ex gen show ?thesis by blast
qed

theorem range_expansion_inclusive_padded_witness:
  "rangeMatch ''0000005-0000008'' = Some (''0000005'', ''0000008'')
   \<and> parseInt ''0000005'' \<le> parseInt ''0000008''
   \<and> parseInt ''0000008'' - parseInt ''0000005'' \<le> MAX_RANGE_SIZE
   \<and> validNewBonds (processSegment [] emptyTally ''0000005-0000008'')
       = map bondStrOf [5, 6, 7, 8]
   \<and> length (bondStrOf 5) = 7 \<and> list_all isDigit (bondStrOf 5)
   \<and> parseInt (bondStrOf 5) = 5
   \<and> length (bondStrOf 8) = 7 \<and> list_all isDigit (bondStrOf 8)
   \<and> parseInt (bondStrOf 8) = 8"
proof -
  have m: "rangeMatch ''0000005-0000008'' = Some (''0000005'', ''0000008'')"
    by (simp add: token_eval)
  have p: "parseInt ''0000005'' = 5" "parseInt ''0000008'' = 8"
    by (simp_all add: token_eval)
  have u: "[5..<Suc 8] = [5, 6, 7, 8::nat]" by (simp add: upt_rec)
  from range_expansion_inclusive_padded [of "''0000005-0000008''" "''0000005''" "''0000008''"]
  show ?thesis using m p u by (simp add: MAX_RANGE_SIZE_def)
qed

text \<open>
  Claim C10. When a call accepts no identifier, whatever the reason, and in particular
  when the input is blank, the collection after the call is the collection before it;
  the collection differs after the call exactly when the input was not blank and at
  least one identifier was accepted.
\<close>

theorem collection_changes_only_on_success:
  "(validNewBonds (ingest (bonds st) (inputValue st)) = []
      \<longrightarrow> bonds (handleProcessInput st) = bonds st)
   \<and> (trim (inputValue st) = [] \<longrightarrow> bonds (handleProcessInput st) = bonds st)
   \<and> (bonds (handleProcessInput st) \<noteq> bonds st
      \<longleftrightarrow> trim (inputValue st) \<noteq> [] \<and> validNewBonds (ingest (bonds st) (inputValue st)) \<noteq> [])"
  by (simp add: bonds_handleProcessInput)

theorem collection_changes_only_on_success_witness:
  "validNewBonds (ingest [''0000001''] ''0000001, 12-3456789 0000000-0050001 77'') = []
   \<and> bonds (handleProcessInput \<lparr>bonds = [''0000001''],
        inputValue = ''0000001, 12-3456789 0000000-0050001 77'', notifications = []\<rparr>)
       = [''0000001'']
   \<and> trim ''  '' = []
   \<and> bonds (handleProcessInput \<lparr>bonds = [''0000001''], inputValue = ''  '',
        notifications = []\<rparr>) = [''0000001'']"
proof -
  have a: "validNewBonds (ingest [''0000001''] ''0000001, 12-3456789 0000000-0050001 77'') = []"
    by (simp add: token_eval ingest_eval del: One_nat_def)
  have b: "trim ''  '' = []" by (simp add: token_eval)
  from collection_changes_only_on_success [of "\<lparr>bonds = [''0000001''],
        inputValue = ''0000001, 12-3456789 0000000-0050001 77'', notifications = []\<rparr>"]
    collection_changes_only_on_success [of "\<lparr>bonds = [''0000001''], inputValue = ''  '',
        notifications = []\<rparr>"]
  show ?thesis using a b by simp
qed

end
